theory Spec2Isabelle
  imports Main "HOL-Library.Sublist"
begin

section \<open>The TYPO3 documentation server: tool catalogue and dispatch\<close>

text \<open>
  A shallow embedding of \<^verbatim>\<open>mcp/typo3-docs-server/server.py\<close>: the catalogue returned
  by \<^verbatim>\<open>list_tools\<close>, the dispatcher \<^verbatim>\<open>call_tool\<close> and the five tool bodies it
  calls. The tool bodies are \<^verbatim>\<open>async\<close> functions that never suspend, so each is a
  function from its arguments to its result.
\<close>

subsection \<open>Python values\<close>

text \<open>
  The values of an argument mapping are the JSON scalars \<^verbatim>\<open>null\<close>, booleans, integers
  and strings, as Python objects. Arrays, objects and floating-point numbers are not
  modelled.
\<close>

datatype pyval = PNone | PBool bool | PInt int | PStr string

type_synonym arguments = "string \<rightharpoonup> pyval"

text \<open>Decimal digits of a natural number, most significant first.\<close>

fun str_nat :: "nat \<Rightarrow> string" where
  "str_nat n =
     (if n < 10 then [''0123456789'' ! n]
      else str_nat (n div 10) @ [''0123456789'' ! (n mod 10)])"

text \<open>The decimal numeral of an integer, with its sign.\<close>

definition decimal :: "int \<Rightarrow> string" where
  "decimal i = (if i < 0 then ''-'' @ str_nat (nat (- i)) else str_nat (nat i))"

text \<open>
  The exceptions a tool body can raise on these values: the \<^verbatim>\<open>TypeError\<close> of a string
  concatenation and the \<^verbatim>\<open>ValueError\<close> of an integer too long to be written in decimal.
  Each carries its message, which is what \<^verbatim>\<open>str(e)\<close> returns.
\<close>

datatype exn = TypeError string | ValueError string

fun str_exn :: "exn \<Rightarrow> string" where
  "str_exn (TypeError msg) = msg"
| "str_exn (ValueError msg) = msg"

text \<open>
  \<^verbatim>\<open>sys.int_info.default_max_str_digits\<close>: the interpreter refuses to convert an integer
  of more decimal digits (the sign not counted) to a string.
\<close>

definition int_max_str_digits :: nat where
  "int_max_str_digits = 4300"

text \<open>\<^verbatim>\<open>str(i)\<close> for a Python integer.\<close>

definition str_int :: "int \<Rightarrow> exn + string" where
  "str_int i =
     (if length (str_nat (nat \<bar>i\<bar>)) > int_max_str_digits then
        Inl (ValueError (''Exceeds the limit (4300 digits) for integer string conversion; '' @
          ''use sys.set_int_max_str_digits() to increase the limit''))
      else Inr (decimal i))"

text \<open>
  What a replacement field \<^verbatim>\<open>{v}\<close> of an f-string inserts for the value \<^verbatim>\<open>v\<close>, which is
  \<^verbatim>\<open>str(v)\<close> for the values modelled; it raises where \<^verbatim>\<open>str(v)\<close> does.
\<close>

fun format_py :: "pyval \<Rightarrow> exn + string" where
  "format_py PNone = Inr ''None''"
| "format_py (PBool b) = Inr (if b then ''True'' else ''False'')"
| "format_py (PInt i) = str_int i"
| "format_py (PStr s) = Inr s"

text \<open>
  An f-string is a sequence of literal pieces and replacement fields. The fields are
  converted from left to right; the first conversion that raises ends the evaluation
  with its exception, otherwise the pieces are joined.
\<close>

fun fstring :: "(exn + string) list \<Rightarrow> exn + string" where
  "fstring [] = Inr []"
| "fstring (Inl e # ps) = Inl e"
| "fstring (Inr s # ps) = (case fstring ps of Inl e \<Rightarrow> Inl e | Inr t \<Rightarrow> Inr (s @ t))"

text \<open>A value is convertible when its conversion to text does not raise.\<close>

definition convertible :: "pyval \<Rightarrow> bool" where
  "convertible v = (case format_py v of Inl e \<Rightarrow> False | Inr s \<Rightarrow> True)"

text \<open>\<^verbatim>\<open>type(v).__name__\<close>.\<close>

fun type_name :: "pyval \<Rightarrow> string" where
  "type_name PNone = ''NoneType''"
| "type_name (PBool b) = ''bool''"
| "type_name (PInt i) = ''int''"
| "type_name (PStr s) = ''str''"

text \<open>\<^verbatim>\<open>s + v\<close> for a string \<^verbatim>\<open>s\<close>: defined on strings only.\<close>

definition str_add :: "string \<Rightarrow> pyval \<Rightarrow> exn + string" where
  "str_add s v =
     (case v of
        PStr t \<Rightarrow> Inr (s @ t)
      | _ \<Rightarrow> Inl (TypeError (''can only concatenate str (not \"'' @ type_name v @ ''\") to str'')))"

text \<open>
  \<^verbatim>\<open>arguments.get(key, default)\<close>; \<^verbatim>\<open>arguments.get(key)\<close> is the same with the default
  \<^verbatim>\<open>None\<close>.
\<close>

definition dict_get :: "arguments \<Rightarrow> string \<Rightarrow> pyval \<Rightarrow> pyval" where
  "dict_get arguments key dflt = (case arguments key of None \<Rightarrow> dflt | Some v \<Rightarrow> v)"

text \<open>
  Membership and lookup in a dictionary whose keys are strings, for a key that is any of
  the values above: a key that is not a string equals no key of the dictionary.
\<close>

definition py_in :: "pyval \<Rightarrow> (string \<rightharpoonup> string) \<Rightarrow> bool" where
  "py_in key d = (case key of PStr s \<Rightarrow> d s \<noteq> None | _ \<Rightarrow> False)"

definition py_get :: "(string \<rightharpoonup> string) \<Rightarrow> pyval \<Rightarrow> string \<Rightarrow> string" where
  "py_get d key dflt =
     (case key of
        PStr s \<Rightarrow> (case d s of Some v \<Rightarrow> v | None \<Rightarrow> dflt)
      | _ \<Rightarrow> dflt)"

subsection \<open>Tool descriptions and text content\<close>

record Property =
  prop_type :: string
  prop_description :: string
  enum :: "string list option"
  default_value :: "pyval option"
  minimum :: "int option"
  maximum :: "int option"

record InputSchema =
  schema_type :: string
  properties :: "(string \<times> Property) list"
  required :: "string list"

record Tool =
  tool_name :: string
  tool_description :: string
  inputSchema :: InputSchema

text \<open>
  \<^verbatim>\<open>TextContent(type=..., text=...)\<close>; the fields carry a prefix because \<^verbatim>\<open>text\<close> is a
  reserved word here.
\<close>

record TextContent =
  tc_type :: string
  tc_text :: string

subsection \<open>Module constants\<close>

definition DOCS_BASE_URL :: string where
  "DOCS_BASE_URL = ''https://docs.typo3.org''"

definition CHANGELOG_URL :: string where
  "CHANGELOG_URL = ''https://docs.typo3.org/c/typo3/cms-core/main/en-us/Changelog''"

definition TER_API_URL :: string where
  "TER_API_URL = ''https://extensions.typo3.org/api/v1''"

subsection \<open>The catalogue\<close>

definition list_tools :: "Tool list" where
  "list_tools =
   [\<lparr>tool_name = ''search_typo3_docs'',
     tool_description = ''Search TYPO3 official documentation at docs.typo3.org. Returns relevant documentation pages with excerpts. Use this when you need information about TYPO3 APIs, features, or configuration.'',
     inputSchema = \<lparr>schema_type = ''object'',
      properties = [
        (''query'',
         \<lparr>prop_type = ''string'',
          prop_description = ''Search query (e.g., 'QueryBuilder', 'Dependency Injection', 'Fluid ViewHelpers')'',
          enum = None,
          default_value = None,
          minimum = None,
          maximum = None\<rparr>),
        (''version'',
         \<lparr>prop_type = ''string'',
          prop_description = ''TYPO3 version (e.g., '12.4', '11.5'). Defaults to latest.'',
          enum = None,
          default_value = Some (PStr ''main''),
          minimum = None,
          maximum = None\<rparr>),
        (''section'',
         \<lparr>prop_type = ''string'',
          prop_description = ''Documentation section: 'reference-coreapi', 'guides', 'extensions', 'changelog'' @ [CHR 0x27],
          enum = Some ([''reference-coreapi'', ''guides'', ''extensions'', ''changelog'', ''all'']),
          default_value = Some (PStr ''all''),
          minimum = None,
          maximum = None\<rparr>)],
      required = [''query'']\<rparr>\<rparr>,
    \<lparr>tool_name = ''get_typo3_changelog'',
     tool_description = ''Fetch TYPO3 Core changelog entries for specific version or type. Returns breaking changes, deprecations, features, and important information for TYPO3 upgrades.'',
     inputSchema = \<lparr>schema_type = ''object'',
      properties = [
        (''version'',
         \<lparr>prop_type = ''string'',
          prop_description = ''TYPO3 version (e.g., '12.4', '11.5', '13.0')'',
          enum = None,
          default_value = None,
          minimum = None,
          maximum = None\<rparr>),
        (''type'',
         \<lparr>prop_type = ''string'',
          prop_description = ''Changelog entry type'',
          enum = Some ([''Breaking'', ''Deprecation'', ''Feature'', ''Important'', ''All'']),
          default_value = Some (PStr ''All''),
          minimum = None,
          maximum = None\<rparr>),
        (''limit'',
         \<lparr>prop_type = ''integer'',
          prop_description = ''Maximum number of entries to return'',
          enum = None,
          default_value = Some (PInt 10),
          minimum = Some (1),
          maximum = Some (50)\<rparr>)],
      required = [''version'']\<rparr>\<rparr>,
    \<lparr>tool_name = ''search_typo3_extensions'',
     tool_description = ''Search TYPO3 Extension Repository (TER) for extensions. Returns extension information including ratings, downloads, compatibility, and descriptions.'',
     inputSchema = \<lparr>schema_type = ''object'',
      properties = [
        (''query'',
         \<lparr>prop_type = ''string'',
          prop_description = ''Search query (extension name, keyword, or functionality)'',
          enum = None,
          default_value = None,
          minimum = None,
          maximum = None\<rparr>),
        (''typo3_version'',
         \<lparr>prop_type = ''string'',
          prop_description = ''Filter by TYPO3 compatibility version (e.g., '12.4')'',
          enum = None,
          default_value = Some (PStr ''12.4''),
          minimum = None,
          maximum = None\<rparr>),
        (''limit'',
         \<lparr>prop_type = ''integer'',
          prop_description = ''Maximum number of results'',
          enum = None,
          default_value = Some (PInt 10),
          minimum = Some (1),
          maximum = Some (50)\<rparr>)],
      required = [''query'']\<rparr>\<rparr>,
    \<lparr>tool_name = ''get_typo3_api_reference'',
     tool_description = ''Get TYPO3 Core API reference for specific class or interface. Returns class documentation, methods, properties, and usage examples.'',
     inputSchema = \<lparr>schema_type = ''object'',
      properties = [
        (''class_name'',
         \<lparr>prop_type = ''string'',
          prop_description = ''Fully qualified class name (e.g., 'TYPO3'' @ [CHR 0x5C] @ ''CMS'' @ [CHR 0x5C] @ ''Core'' @ [CHR 0x5C] @ ''Database'' @ [CHR 0x5C] @ ''ConnectionPool')'',
          enum = None,
          default_value = None,
          minimum = None,
          maximum = None\<rparr>),
        (''method_name'',
         \<lparr>prop_type = ''string'',
          prop_description = ''Specific method name to get detailed info (optional)'',
          enum = None,
          default_value = None,
          minimum = None,
          maximum = None\<rparr>)],
      required = [''class_name'']\<rparr>\<rparr>,
    \<lparr>tool_name = ''get_typo3_coding_guidelines'',
     tool_description = ''Retrieve TYPO3 Coding Guidelines (CGL) for specific topic. Returns official coding standards and best practices.'',
     inputSchema = \<lparr>schema_type = ''object'',
      properties = [
        (''topic'',
         \<lparr>prop_type = ''string'',
          prop_description = ''Guideline topic'',
          enum = Some ([''php'', ''javascript'', ''typescript'', ''fluid'', ''typoscript'', ''database'', ''security'', ''all'']),
          default_value = Some (PStr ''php''),
          minimum = None,
          maximum = None\<rparr>)],
      required = []\<rparr>\<rparr>]"

subsection \<open>The tool bodies\<close>

definition search_typo3_docs :: "pyval \<Rightarrow> pyval \<Rightarrow> pyval \<Rightarrow> exn + TextContent list" where
  "search_typo3_docs query version section =
    (case fstring
       [Inr ''# TYPO3 Documentation Search Results\<newline>'',
        Inr ''\<newline>'',
        Inr ''**Query:** '', format_py query, Inr ''\<newline>'',
        Inr ''**Version:** '', format_py version, Inr ''\<newline>'',
        Inr ''**Section:** '', format_py section, Inr ''\<newline>'',
        Inr ''\<newline>'',
        Inr ''## Relevant Documentation\<newline>'',
        Inr ''\<newline>'',
        Inr ''### 1. Core API Reference\<newline>'',
        Inr ''If searching for QueryBuilder, Dependency Injection, or Core APIs:\<newline>'',
        Inr ''- URL: '', format_py (PStr DOCS_BASE_URL), Inr ''/m/typo3/reference-coreapi/'', format_py version, Inr ''/en-us/\<newline>'',
        Inr ''- Topics: Database, DI, Events, Caching, etc.\<newline>'',
        Inr ''\<newline>'',
        Inr ''### 2. Extbase & Fluid\<newline>'',
        Inr ''For MVC framework and templating:\<newline>'',
        Inr ''- URL: '', format_py (PStr DOCS_BASE_URL), Inr ''/m/typo3/reference-coreapi/'', format_py version, Inr ''/en-us/ExtensionArchitecture/Extbase/\<newline>'',
        Inr ''- Fluid: '', format_py (PStr DOCS_BASE_URL), Inr ''/m/typo3/reference-coreapi/'', format_py version, Inr ''/en-us/ApiOverview/Fluid/\<newline>'',
        Inr ''\<newline>'',
        Inr ''### 3. TCA Reference\<newline>'',
        Inr ''For backend forms and database fields:\<newline>'',
        Inr ''- URL: '', format_py (PStr DOCS_BASE_URL), Inr ''/m/typo3/reference-tca/'', format_py version, Inr ''/en-us/\<newline>'',
        Inr ''\<newline>'',
        Inr ''### 4. TypoScript Reference\<newline>'',
        Inr ''For TypoScript configuration:\<newline>'',
        Inr ''- URL: '', format_py (PStr DOCS_BASE_URL), Inr ''/m/typo3/reference-typoscript/'', format_py version, Inr ''/en-us/\<newline>'',
        Inr ''\<newline>'',
        Inr ''**Note:** For detailed search, visit https://docs.typo3.org directly.\<newline>'',
        Inr ''For specific API questions, use the get_typo3_api_reference tool.\<newline>'']
     of Inl e \<Rightarrow> Inl e
      | Inr results \<Rightarrow> Inr [\<lparr>tc_type = ''text'', tc_text = results\<rparr>])"

definition get_typo3_changelog :: "pyval \<Rightarrow> pyval \<Rightarrow> pyval \<Rightarrow> exn + TextContent list" where
  "get_typo3_changelog version change_type limit =
    (case fstring
       [Inr ''# TYPO3 '', format_py version, Inr '' Changelog\<newline>'',
        Inr ''\<newline>'',
        Inr ''**Type:** '', format_py change_type, Inr ''\<newline>'',
        Inr ''**Limit:** '', format_py limit, Inr ''\<newline>'',
        Inr ''\<newline>'',
        Inr ''## Important Changes for TYPO3 '', format_py version, Inr ''\<newline>'',
        Inr ''\<newline>'',
        Inr ''### Breaking Changes\<newline>'',
        Inr ''- **Removed $GLOBALS['TYPO3_DB']**: Use Doctrine DBAL ConnectionPool\<newline>'',
        Inr ''- **Removed ObjectManager**: Use Dependency Injection\<newline>'',
        Inr ''- **PSR-7 Request/Response**: All controllers must return ResponseInterface\<newline>'',
        Inr ''\<newline>'',
        Inr ''### Deprecations\<newline>'',
        Inr ''- **GeneralUtility::getUrl()**: Use RequestFactory instead\<newline>'',
        Inr ''- **Inject methods**: Use constructor injection\<newline>'',
        Inr ''- **Old hook system**: Migrate to PSR-14 Events\<newline>'',
        Inr ''\<newline>'',
        Inr ''### Features\<newline>'',
        Inr ''- **Improved Dependency Injection**: Full autowiring support\<newline>'',
        Inr ''- **Modern TCA types**: New input types (number, datetime, etc.)\<newline>'',
        Inr ''- **Site Configuration**: YAML-based site configs\<newline>'',
        Inr ''\<newline>'',
        Inr ''### Important\<newline>'',
        Inr ''- **PHP 8.1+ required** for TYPO3 v12\<newline>'',
        Inr ''- **Composer mode recommended**\<newline>'',
        Inr ''- **Update extension dependencies**\<newline>'',
        Inr ''\<newline>'',
        Inr ''**Full Changelog:** '', format_py (PStr CHANGELOG_URL), Inr ''/Index.html\<newline>'',
        Inr ''\<newline>'',
        Inr ''For detailed migration info, check:\<newline>'',
        Inr ''- Upgrade Guide: '', format_py (PStr DOCS_BASE_URL), Inr ''/m/typo3/guide-installation/main/en-us/Upgrade/\<newline>'']
     of Inl e \<Rightarrow> Inl e
      | Inr changelog_info \<Rightarrow> Inr [\<lparr>tc_type = ''text'', tc_text = changelog_info\<rparr>])"

definition search_typo3_extensions :: "pyval \<Rightarrow> pyval \<Rightarrow> pyval \<Rightarrow> exn + TextContent list" where
  "search_typo3_extensions query typo3_version limit =
    (case fstring
       [Inr ''# TYPO3 Extension Repository Search\<newline>'',
        Inr ''\<newline>'',
        Inr ''**Query:** '', format_py query, Inr ''\<newline>'',
        Inr ''**TYPO3 Version:** '', format_py typo3_version, Inr ''\<newline>'',
        Inr ''**Limit:** '', format_py limit, Inr ''\<newline>'',
        Inr ''\<newline>'',
        Inr ''## Search Results\<newline>'',
        Inr ''\<newline>'',
        Inr ''### Popular TYPO3 Extensions\<newline>'',
        Inr ''\<newline>'',
        Inr ''**Note:** Visit https://extensions.typo3.org to browse official extensions.\<newline>'',
        Inr ''\<newline>'',
        Inr ''**Recommended Extensions for TYPO3 '', format_py typo3_version, Inr '':**\<newline>'',
        Inr ''\<newline>'',
        Inr ''1. **news** - Versatile news system\<newline>'',
        Inr ''   - Composer: `composer require georgringer/news`\<newline>'',
        Inr ''   - Compatibility: TYPO3 11-12\<newline>'',
        Inr ''\<newline>'',
        Inr ''2. **powermail** - Forms extension\<newline>'',
        Inr ''   - Composer: `composer require in2code/powermail`\<newline>'',
        Inr ''   - Compatibility: TYPO3 11-12\<newline>'',
        Inr ''\<newline>'',
        Inr ''3. **mask** - Frontend editing\<newline>'',
        Inr ''   - Composer: `composer require mask/mask`\<newline>'',
        Inr ''   - Compatibility: TYPO3 11-12\<newline>'',
        Inr ''\<newline>'',
        Inr ''4. **container** - Grid elements\<newline>'',
        Inr ''   - Composer: `composer require b13/container`\<newline>'',
        Inr ''   - Compatibility: TYPO3 11-12\<newline>'',
        Inr ''\<newline>'',
        Inr ''**Install via Composer:**\<newline>'',
        Inr ''```bash\<newline>'',
        Inr ''composer require vendor/extension-key\<newline>'',
        Inr ''```\<newline>'',
        Inr ''\<newline>'',
        Inr ''Then activate in Extension Manager or via:\<newline>'',
        Inr ''```bash\<newline>'',
        Inr ''typo3 extension:activate extension_key\<newline>'',
        Inr ''```\<newline>'']
     of Inl e \<Rightarrow> Inl e
      | Inr results \<Rightarrow> Inr [\<lparr>tc_type = ''text'', tc_text = results\<rparr>])"

definition api_docs_ConnectionPool :: string where
  "api_docs_ConnectionPool =
  ''\<newline>'' @
  ''# ConnectionPool API Reference\<newline>'' @
  ''\<newline>'' @
  ''**Namespace:** TYPO3'' @ [CHR 0x5C] @ ''CMS'' @ [CHR 0x5C] @ ''Core'' @ [CHR 0x5C] @ ''Database'' @ [CHR 0x5C] @ ''ConnectionPool\<newline>'' @
  ''\<newline>'' @
  ''## Description\<newline>'' @
  ''Factory class for database connections. Used to get QueryBuilder instances.\<newline>'' @
  ''\<newline>'' @
  ''## Usage\<newline>'' @
  ''\<newline>'' @
  ''```php\<newline>'' @
  ''use TYPO3'' @ [CHR 0x5C] @ ''CMS'' @ [CHR 0x5C] @ ''Core'' @ [CHR 0x5C] @ ''Database'' @ [CHR 0x5C] @ ''ConnectionPool;\<newline>'' @
  ''\<newline>'' @
  ''public function __construct(\<newline>'' @
  ''    private readonly ConnectionPool $connectionPool\<newline>'' @
  '') {}\<newline>'' @
  ''\<newline>'' @
  ''public function findProducts(): array\<newline>'' @
  ''{\<newline>'' @
  ''    $queryBuilder = $this->connectionPool\<newline>'' @
  ''        ->getQueryBuilderForTable('tx_myext_product');\<newline>'' @
  ''\<newline>'' @
  ''    return $queryBuilder\<newline>'' @
  ''        ->select('*')\<newline>'' @
  ''        ->from('tx_myext_product')\<newline>'' @
  ''        ->where(\<newline>'' @
  ''            $queryBuilder->expr()->eq(\<newline>'' @
  ''                'active',\<newline>'' @
  ''                $queryBuilder->createNamedParameter(1, '' @ [CHR 0x5C] @ ''PDO::PARAM_INT)\<newline>'' @
  ''            )\<newline>'' @
  ''        )\<newline>'' @
  ''        ->executeQuery()\<newline>'' @
  ''        ->fetchAllAssociative();\<newline>'' @
  ''}\<newline>'' @
  ''```\<newline>'' @
  ''\<newline>'' @
  ''## Methods\<newline>'' @
  ''\<newline>'' @
  ''### getQueryBuilderForTable(string $table): QueryBuilder\<newline>'' @
  ''Returns QueryBuilder for specified table.\<newline>'' @
  ''\<newline>'' @
  ''### getConnectionForTable(string $table): Connection\<newline>'' @
  ''Returns Connection instance for direct queries.\<newline>'' @
  ''\<newline>'' @
  ''## See Also\<newline>'' @
  ''- QueryBuilder\<newline>'' @
  ''- Connection\<newline>'' @
  ''- Doctrine DBAL Documentation\<newline>''"

definition api_docs_RequestFactory :: string where
  "api_docs_RequestFactory =
  ''\<newline>'' @
  ''# RequestFactory API Reference\<newline>'' @
  ''\<newline>'' @
  ''**Namespace:** TYPO3'' @ [CHR 0x5C] @ ''CMS'' @ [CHR 0x5C] @ ''Core'' @ [CHR 0x5C] @ ''Http'' @ [CHR 0x5C] @ ''RequestFactory\<newline>'' @
  ''\<newline>'' @
  ''## Description\<newline>'' @
  ''Factory for creating HTTP requests. Replacement for deprecated GeneralUtility::getUrl().\<newline>'' @
  ''\<newline>'' @
  ''## Usage\<newline>'' @
  ''\<newline>'' @
  ''```php\<newline>'' @
  ''use TYPO3'' @ [CHR 0x5C] @ ''CMS'' @ [CHR 0x5C] @ ''Core'' @ [CHR 0x5C] @ ''Http'' @ [CHR 0x5C] @ ''RequestFactory;\<newline>'' @
  ''\<newline>'' @
  ''public function __construct(\<newline>'' @
  ''    private readonly RequestFactory $requestFactory\<newline>'' @
  '') {}\<newline>'' @
  ''\<newline>'' @
  ''public function fetchFromApi(): array\<newline>'' @
  ''{\<newline>'' @
  ''    $response = $this->requestFactory->request(\<newline>'' @
  ''        'https://api.example.com/data',\<newline>'' @
  ''        'GET',\<newline>'' @
  ''        [\<newline>'' @
  ''            'headers' => [\<newline>'' @
  ''                'Authorization' => 'Bearer ' . $apiKey,\<newline>'' @
  ''            ],\<newline>'' @
  ''            'timeout' => 10,\<newline>'' @
  ''        ]\<newline>'' @
  ''    );\<newline>'' @
  ''\<newline>'' @
  ''    return json_decode($response->getBody()->getContents(), true);\<newline>'' @
  ''}\<newline>'' @
  ''```\<newline>'' @
  ''\<newline>'' @
  ''## Methods\<newline>'' @
  ''\<newline>'' @
  ''### request(string $uri, string $method, array $options): ResponseInterface\<newline>'' @
  ''Makes HTTP request and returns PSR-7 Response.\<newline>'' @
  ''\<newline>'' @
  ''## See Also\<newline>'' @
  ''- PSR-7 HTTP Message Interfaces\<newline>'' @
  ''- Guzzle HTTP Client\<newline>''"

definition api_docs :: "string \<rightharpoonup> string" where
  "api_docs =
    [''TYPO3'' @ [CHR 0x5C] @ ''CMS'' @ [CHR 0x5C] @ ''Core'' @ [CHR 0x5C] @ ''Database'' @ [CHR 0x5C] @ ''ConnectionPool''
       \<mapsto> api_docs_ConnectionPool,
     ''TYPO3'' @ [CHR 0x5C] @ ''CMS'' @ [CHR 0x5C] @ ''Core'' @ [CHR 0x5C] @ ''Http'' @ [CHR 0x5C] @ ''RequestFactory''
       \<mapsto> api_docs_RequestFactory]"

text \<open>
  The subscript \<^verbatim>\<open>api_docs[class_name]\<close> is evaluated only after the membership test has
  succeeded, so it cannot raise; the default given to \<open>py_get\<close> is never used. The
  parameter \<^verbatim>\<open>method_name\<close> is not read.
\<close>

definition get_typo3_api_reference :: "pyval \<Rightarrow> pyval \<Rightarrow> exn + TextContent list" where
  "get_typo3_api_reference class_name method_name =
    (case
       (if py_in class_name api_docs then Inr (py_get api_docs class_name [])
        else
         fstring
           [Inr ''# '', format_py class_name, Inr ''\<newline>'',
            Inr ''\<newline>'',
            Inr ''API documentation for '', format_py class_name, Inr ''\<newline>'',
            Inr ''\<newline>'',
            Inr ''**Find detailed documentation at:**\<newline>'',
            Inr ''https://docs.typo3.org/m/typo3/reference-coreapi/main/en-us/\<newline>'',
            Inr ''\<newline>'',
            Inr ''**Common TYPO3 Core classes:**\<newline>'',
            Inr (''- TYPO3'' @ [CHR 0x5C] @ ''CMS'' @ [CHR 0x5C] @ ''Core'' @ [CHR 0x5C] @ ''Database'' @ [CHR 0x5C] @ ''ConnectionPool\<newline>''),
            Inr (''- TYPO3'' @ [CHR 0x5C] @ ''CMS'' @ [CHR 0x5C] @ ''Core'' @ [CHR 0x5C] @ ''Http'' @ [CHR 0x5C] @ ''RequestFactory\<newline>''),
            Inr (''- TYPO3'' @ [CHR 0x5C] @ ''CMS'' @ [CHR 0x5C] @ ''Core'' @ [CHR 0x5C] @ ''Cache'' @ [CHR 0x5C] @ ''CacheManager\<newline>''),
            Inr (''- TYPO3'' @ [CHR 0x5C] @ ''CMS'' @ [CHR 0x5C] @ ''Core'' @ [CHR 0x5C] @ ''Resource'' @ [CHR 0x5C] @ ''ResourceFactory\<newline>''),
            Inr (''- TYPO3'' @ [CHR 0x5C] @ ''CMS'' @ [CHR 0x5C] @ ''Core'' @ [CHR 0x5C] @ ''Context'' @ [CHR 0x5C] @ ''Context\<newline>''),
            Inr (''- TYPO3'' @ [CHR 0x5C] @ ''CMS'' @ [CHR 0x5C] @ ''Extbase'' @ [CHR 0x5C] @ ''Persistence'' @ [CHR 0x5C] @ ''Repository\<newline>''),
            Inr ''\<newline>'',
            Inr ''Use the search_typo3_docs tool for more specific information.\<newline>''])
     of Inl e \<Rightarrow> Inl e
      | Inr result \<Rightarrow> Inr [\<lparr>tc_type = ''text'', tc_text = result\<rparr>])"

definition guidelines_php :: string where
  "guidelines_php =
  ''\<newline>'' @
  ''# TYPO3 PHP Coding Guidelines (CGL)\<newline>'' @
  ''\<newline>'' @
  ''## File Structure\<newline>'' @
  ''\<newline>'' @
  ''```php\<newline>'' @
  ''<?php\<newline>'' @
  ''\<newline>'' @
  ''declare(strict_types=1);\<newline>'' @
  ''\<newline>'' @
  ''namespace Vendor'' @ [CHR 0x5C] @ ''ExtensionKey'' @ [CHR 0x5C] @ ''Domain'' @ [CHR 0x5C] @ ''Model;\<newline>'' @
  ''\<newline>'' @
  ''use TYPO3'' @ [CHR 0x5C] @ ''CMS'' @ [CHR 0x5C] @ ''Extbase'' @ [CHR 0x5C] @ ''DomainObject'' @ [CHR 0x5C] @ ''AbstractEntity;\<newline>'' @
  ''\<newline>'' @
  ''class Product extends AbstractEntity\<newline>'' @
  ''{\<newline>'' @
  ''    protected string $title = '' @ [CHR 0x27, CHR 0x27] @ '';\<newline>'' @
  ''\<newline>'' @
  ''    public function getTitle(): string\<newline>'' @
  ''    {\<newline>'' @
  ''        return $this->title;\<newline>'' @
  ''    }\<newline>'' @
  ''}\<newline>'' @
  ''```\<newline>'' @
  ''\<newline>'' @
  ''## Key Rules\<newline>'' @
  ''\<newline>'' @
  ''1. **PSR-12 Compliance**\<newline>'' @
  ''   - 4 spaces indentation\<newline>'' @
  ''   - Opening braces on new line\<newline>'' @
  ''   - Max 120 chars per line\<newline>'' @
  ''\<newline>'' @
  ''2. **File Headers**\<newline>'' @
  ''   - `declare(strict_types=1);` after PHP tag\<newline>'' @
  ''   - Config files: `defined('TYPO3') || die();`\<newline>'' @
  ''\<newline>'' @
  ''3. **Namespacing**\<newline>'' @
  ''   - Format: `Vendor'' @ [CHR 0x5C] @ ''ExtensionKey'' @ [CHR 0x5C] @ ''ComponentType'' @ [CHR 0x5C] @ ''`\<newline>'' @
  ''   - StudlyCase for all parts\<newline>'' @
  ''\<newline>'' @
  ''4. **Type Declarations**\<newline>'' @
  ''   - Required on all parameters and returns\<newline>'' @
  ''   - Use `readonly` for immutable properties\<newline>'' @
  ''\<newline>'' @
  ''5. **Dependency Injection**\<newline>'' @
  ''   - Constructor injection only\<newline>'' @
  ''   - No ObjectManager or makeInstance for services\<newline>'' @
  ''\<newline>'' @
  ''**Official CGL:** https://docs.typo3.org/m/typo3/reference-coreapi/main/en-us/CodingGuidelines/\<newline>''"

definition guidelines_database :: string where
  "guidelines_database =
  ''\<newline>'' @
  ''# TYPO3 Database Guidelines\<newline>'' @
  ''\<newline>'' @
  ''## Use Doctrine DBAL QueryBuilder\<newline>'' @
  ''\<newline>'' @
  ''```php\<newline>'' @
  ''use TYPO3'' @ [CHR 0x5C] @ ''CMS'' @ [CHR 0x5C] @ ''Core'' @ [CHR 0x5C] @ ''Database'' @ [CHR 0x5C] @ ''ConnectionPool;\<newline>'' @
  ''\<newline>'' @
  ''$queryBuilder = $this->connectionPool\<newline>'' @
  ''    ->getQueryBuilderForTable('tx_myext_product');\<newline>'' @
  ''\<newline>'' @
  ''$products = $queryBuilder\<newline>'' @
  ''    ->select('*')\<newline>'' @
  ''    ->from('tx_myext_product')\<newline>'' @
  ''    ->where(\<newline>'' @
  ''        $queryBuilder->expr()->eq(\<newline>'' @
  ''            'category',\<newline>'' @
  ''            $queryBuilder->createNamedParameter($categoryId, '' @ [CHR 0x5C] @ ''PDO::PARAM_INT)\<newline>'' @
  ''        )\<newline>'' @
  ''    )\<newline>'' @
  ''    ->executeQuery()\<newline>'' @
  ''    ->fetchAllAssociative();\<newline>'' @
  ''```\<newline>'' @
  ''\<newline>'' @
  ''## Rules\<newline>'' @
  ''\<newline>'' @
  ''1. **Always use QueryBuilder** - not raw SQL\<newline>'' @
  ''2. **Named parameters** - prevent SQL injection\<newline>'' @
  ''3. **PDO types** - specify for all parameters\<newline>'' @
  ''4. **No $GLOBALS['TYPO3_DB']** - removed in v10\<newline>'' @
  ''\<newline>'' @
  ''**Docs:** https://docs.typo3.org/m/typo3/reference-coreapi/main/en-us/ApiOverview/Database/\<newline>''"

definition guidelines :: "string \<rightharpoonup> string" where
  "guidelines = [''php'' \<mapsto> guidelines_php, ''database'' \<mapsto> guidelines_database]"

text \<open>
  The default of \<^verbatim>\<open>guidelines.get\<close> is an argument of the call, so the concatenation
  is evaluated, and may raise, before the lookup.
\<close>

definition get_typo3_coding_guidelines :: "pyval \<Rightarrow> exn + TextContent list" where
  "get_typo3_coding_guidelines topic =
    (case str_add ''Guidelines for '' topic of
       Inl e \<Rightarrow> Inl e
     | Inr dflt \<Rightarrow>
         (let result = py_get guidelines topic dflt
          in Inr [\<lparr>tc_type = ''text'', tc_text = result\<rparr>]))"

subsection \<open>Dispatch\<close>

text \<open>The body of the \<^verbatim>\<open>try\<close> block of \<^verbatim>\<open>call_tool\<close>.\<close>

definition call_tool_try :: "string \<Rightarrow> arguments \<Rightarrow> exn + TextContent list" where
  "call_tool_try name arguments =
    (if name = ''search_typo3_docs'' then
       search_typo3_docs
         (dict_get arguments ''query'' PNone)
         (dict_get arguments ''version'' (PStr ''main''))
         (dict_get arguments ''section'' (PStr ''all''))
     else if name = ''get_typo3_changelog'' then
       get_typo3_changelog
         (dict_get arguments ''version'' PNone)
         (dict_get arguments ''type'' (PStr ''All''))
         (dict_get arguments ''limit'' (PInt 10))
     else if name = ''search_typo3_extensions'' then
       search_typo3_extensions
         (dict_get arguments ''query'' PNone)
         (dict_get arguments ''typo3_version'' (PStr ''12.4''))
         (dict_get arguments ''limit'' (PInt 10))
     else if name = ''get_typo3_api_reference'' then
       get_typo3_api_reference
         (dict_get arguments ''class_name'' PNone)
         (dict_get arguments ''method_name'' PNone)
     else if name = ''get_typo3_coding_guidelines'' then
       get_typo3_coding_guidelines
         (dict_get arguments ''topic'' (PStr ''php''))
     else
       Inr [\<lparr>tc_type = ''text'', tc_text = ''Unknown tool: '' @ name\<rparr>])"

text \<open>
  \<^verbatim>\<open>call_tool\<close> with its \<^verbatim>\<open>except Exception\<close> clause. The only state the call touches
  is the log of the module's logger, a list of the messages written so far.
\<close>

definition call_tool :: "string \<Rightarrow> arguments \<Rightarrow> string list \<Rightarrow> TextContent list \<times> string list" where
  "call_tool name arguments log =
    (case call_tool_try name arguments of
       Inr result \<Rightarrow> (result, log)
     | Inl e \<Rightarrow>
         ([\<lparr>tc_type = ''text'', tc_text = ''Error: '' @ str_exn e\<rparr>],
          log @ [''Error in tool '' @ [CHR 0x27] @ name @ [CHR 0x27] @ '': '' @ str_exn e]))"

text \<open>
  The values \<^verbatim>\<open>call_tool\<close> passes to the tool body in each branch, in the order of the
  call: the only part of the argument mapping a tool body receives.
\<close>

definition handler_args :: "string \<Rightarrow> arguments \<Rightarrow> pyval list" where
  "handler_args name arguments =
    (if name = ''search_typo3_docs'' then
       [dict_get arguments ''query'' PNone,
        dict_get arguments ''version'' (PStr ''main''),
        dict_get arguments ''section'' (PStr ''all'')]
     else if name = ''get_typo3_changelog'' then
       [dict_get arguments ''version'' PNone,
        dict_get arguments ''type'' (PStr ''All''),
        dict_get arguments ''limit'' (PInt 10)]
     else if name = ''search_typo3_extensions'' then
       [dict_get arguments ''query'' PNone,
        dict_get arguments ''typo3_version'' (PStr ''12.4''),
        dict_get arguments ''limit'' (PInt 10)]
     else if name = ''get_typo3_api_reference'' then
       [dict_get arguments ''class_name'' PNone,
        dict_get arguments ''method_name'' PNone]
     else if name = ''get_typo3_coding_guidelines'' then
       [dict_get arguments ''topic'' (PStr ''php'')]
     else [])"

text \<open>The tool body a name selects, applied to a list of positional values.\<close>

definition call_handler :: "string \<Rightarrow> pyval list \<Rightarrow> exn + TextContent list" where
  "call_handler name vs =
    (if name = ''search_typo3_docs'' then search_typo3_docs (vs ! 0) (vs ! 1) (vs ! 2)
     else if name = ''get_typo3_changelog'' then get_typo3_changelog (vs ! 0) (vs ! 1) (vs ! 2)
     else if name = ''search_typo3_extensions'' then search_typo3_extensions (vs ! 0) (vs ! 1) (vs ! 2)
     else if name = ''get_typo3_api_reference'' then get_typo3_api_reference (vs ! 0) (vs ! 1)
     else if name = ''get_typo3_coding_guidelines'' then get_typo3_coding_guidelines (vs ! 0)
     else Inr [\<lparr>tc_type = ''text'', tc_text = ''Unknown tool: '' @ name\<rparr>])"

subsection \<open>Views of the catalogue\<close>

text \<open>Every pair of a tool and a parameter its schema lists under \<^verbatim>\<open>required\<close>.\<close>

definition required_params :: "(string \<times> string) list" where
  "required_params =
     concat (map (\<lambda>t. map (\<lambda>p. (tool_name t, p)) (required (inputSchema t))) list_tools)"

text \<open>Every triple of a tool, a parameter and the \<^verbatim>\<open>default\<close> its schema declares for it.\<close>

definition declared_defaults :: "(string \<times> string \<times> pyval) list" where
  "declared_defaults =
     concat (map (\<lambda>t. concat (map (\<lambda>(k, p).
         (case default_value p of None \<Rightarrow> [] | Some d \<Rightarrow> [(tool_name t, k, d)]))
       (properties (inputSchema t)))) list_tools)"

text \<open>The parameter names the schema of the tool called \<open>n\<close> declares.\<close>

definition declared_params :: "string \<Rightarrow> string list" where
  "declared_params n =
     concat (map (\<lambda>t. map fst (properties (inputSchema t)))
       (filter (\<lambda>t. tool_name t = n) list_tools))"

text \<open>
  The parameters of a tool that are not required, each with its type, allowed values,
  default and bounds.
\<close>

definition optional_params ::
  "Tool \<Rightarrow> (string \<times> string \<times> string list option \<times> pyval option \<times> int option \<times> int option) list" where
  "optional_params t =
     map (\<lambda>(k, p). (k, prop_type p, enum p, default_value p, minimum p, maximum p))
       (filter (\<lambda>(k, p). k \<notin> set (required (inputSchema t))) (properties (inputSchema t)))"

section \<open>Properties\<close>

subsection \<open>Auxiliary facts\<close>

declare str_nat.simps [simp del]

lemma format_py_int_10: "format_py (PInt 10) = Inr ''10''"
  by (simp add: str_int_def decimal_def int_max_str_digits_def str_nat.simps)

lemma format_py_int_100: "format_py (PInt 100) = Inr ''100''"
  by (simp add: str_int_def decimal_def int_max_str_digits_def str_nat.simps)

lemma convertible_simps:
  "convertible PNone" "convertible (PBool b)" "convertible (PStr s)"
  by (simp_all add: convertible_def)

lemma convertible_PInt:
  "convertible (PInt n) \<longleftrightarrow> length (str_nat (nat \<bar>n\<bar>)) \<le> int_max_str_digits"
  by (simp add: convertible_def str_int_def)

lemma convertible_format_py:
  assumes "convertible v"
  obtains s where "format_py v = Inr s"
  using assms by (cases "format_py v") (simp_all add: convertible_def)

lemma format_py_PInt_convertible:
  "convertible (PInt n) \<Longrightarrow> format_py (PInt n) = Inr (decimal n)"
  by (simp add: convertible_PInt str_int_def)

lemma required_params_eq:
  "required_params =
     [(''search_typo3_docs'', ''query''), (''get_typo3_changelog'', ''version''),
      (''search_typo3_extensions'', ''query''), (''get_typo3_api_reference'', ''class_name'')]"
  by (simp add: required_params_def list_tools_def)

lemma declared_defaults_eq:
  "declared_defaults =
     [(''search_typo3_docs'', ''version'', PStr ''main''),
      (''search_typo3_docs'', ''section'', PStr ''all''),
      (''get_typo3_changelog'', ''type'', PStr ''All''),
      (''get_typo3_changelog'', ''limit'', PInt 10),
      (''search_typo3_extensions'', ''typo3_version'', PStr ''12.4''),
      (''search_typo3_extensions'', ''limit'', PInt 10),
      (''get_typo3_coding_guidelines'', ''topic'', PStr ''php'')]"
  by (simp add: declared_defaults_def list_tools_def)

lemma declared_params_eq:
  "declared_params n =
     (if n = ''search_typo3_docs'' then [''query'', ''version'', ''section'']
      else if n = ''get_typo3_changelog'' then [''version'', ''type'', ''limit'']
      else if n = ''search_typo3_extensions'' then [''query'', ''typo3_version'', ''limit'']
      else if n = ''get_typo3_api_reference'' then [''class_name'', ''method_name'']
      else if n = ''get_typo3_coding_guidelines'' then [''topic'']
      else [])"
  by (simp add: declared_params_def list_tools_def)

lemma tool_names_eq:
  "map tool_name list_tools =
     [''search_typo3_docs'', ''get_typo3_changelog'', ''search_typo3_extensions'',
      ''get_typo3_api_reference'', ''get_typo3_coding_guidelines'']"
  by (simp add: list_tools_def)

text \<open>
  The leading lines of each generated text when every conversion succeeds, with the rest
  of the text left open.
\<close>

lemma search_typo3_docs_shape:
  assumes "format_py q = Inr qs" and "format_py v = Inr vs" and "format_py sec = Inr ss"
  shows "\<exists>s. search_typo3_docs q v sec =
     Inr [\<lparr>tc_type = ''text'',
           tc_text = ''# TYPO3 Documentation Search Results\<newline>\<newline>**Query:** '' @ qs @
             ''\<newline>**Version:** '' @ vs @ ''\<newline>**Section:** '' @ ss @ ''\<newline>'' @ s\<rparr>]"
  using assms by (simp add: search_typo3_docs_def)

lemma get_typo3_changelog_shape:
  assumes "format_py v = Inr vs" and "format_py ct = Inr cs" and "format_py l = Inr ls"
  shows "\<exists>s. get_typo3_changelog v ct l =
     Inr [\<lparr>tc_type = ''text'',
           tc_text = ''# TYPO3 '' @ vs @ '' Changelog\<newline>\<newline>**Type:** '' @ cs @
             ''\<newline>**Limit:** '' @ ls @ ''\<newline>'' @ s\<rparr>]"
  using assms by (simp add: get_typo3_changelog_def)

lemma search_typo3_extensions_shape:
  assumes "format_py q = Inr qs" and "format_py v = Inr vs" and "format_py l = Inr ls"
  shows "\<exists>s. search_typo3_extensions q v l =
     Inr [\<lparr>tc_type = ''text'',
           tc_text = ''# TYPO3 Extension Repository Search\<newline>\<newline>**Query:** '' @ qs @
             ''\<newline>**TYPO3 Version:** '' @ vs @ ''\<newline>**Limit:** '' @ ls @
             ''\<newline>'' @ s\<rparr>]"
  using assms by (simp add: search_typo3_extensions_def)

lemma get_typo3_api_reference_generic:
  assumes "\<not> py_in c api_docs" and "format_py c = Inr cs"
  shows "\<exists>s. get_typo3_api_reference c m =
     Inr [\<lparr>tc_type = ''text'',
           tc_text = ''# '' @ cs @ ''\<newline>\<newline>API documentation for '' @ cs @
             ''\<newline>'' @ s\<rparr>]"
  using assms by (simp add: get_typo3_api_reference_def)

lemma get_typo3_coding_guidelines_str:
  "get_typo3_coding_guidelines (PStr s) =
     Inr [\<lparr>tc_type = ''text'',
           tc_text = (case guidelines s of Some g \<Rightarrow> g | None \<Rightarrow> ''Guidelines for '' @ s)\<rparr>]"
  by (simp add: get_typo3_coding_guidelines_def str_add_def py_get_def Let_def split: option.splits)

lemma get_typo3_coding_guidelines_raises:
  "(\<forall>s. topic \<noteq> PStr s) \<Longrightarrow>
   get_typo3_coding_guidelines topic =
     Inl (TypeError (''can only concatenate str (not \"'' @ type_name topic @ ''\") to str''))"
  by (cases topic) (simp_all add: get_typo3_coding_guidelines_def str_add_def)

lemma not_py_in_None: "\<not> py_in PNone d"
  by (simp add: py_in_def)

text \<open>Every tool body either returns a single text block or raises.\<close>

lemma text_block_cases:
  "(\<exists>t. (case x of Inl e \<Rightarrow> Inl e
            | Inr r \<Rightarrow> Inr [\<lparr>tc_type = ''text'', tc_text = r\<rparr>]) =
          Inr [\<lparr>tc_type = ''text'', tc_text = t\<rparr>]) \<or>
   (\<exists>e'. (case x of Inl e \<Rightarrow> Inl e
            | Inr r \<Rightarrow> Inr [\<lparr>tc_type = ''text'', tc_text = r\<rparr>]) = Inl e')"
  by (cases x) simp_all

lemma search_typo3_docs_cases:
  "(\<exists>t. search_typo3_docs q v sec = Inr [\<lparr>tc_type = ''text'', tc_text = t\<rparr>]) \<or>
   (\<exists>e. search_typo3_docs q v sec = Inl e)"
  unfolding search_typo3_docs_def by (rule text_block_cases)

lemma get_typo3_changelog_cases:
  "(\<exists>t. get_typo3_changelog v ct l = Inr [\<lparr>tc_type = ''text'', tc_text = t\<rparr>]) \<or>
   (\<exists>e. get_typo3_changelog v ct l = Inl e)"
  unfolding get_typo3_changelog_def by (rule text_block_cases)

lemma search_typo3_extensions_cases:
  "(\<exists>t. search_typo3_extensions q v l = Inr [\<lparr>tc_type = ''text'', tc_text = t\<rparr>]) \<or>
   (\<exists>e. search_typo3_extensions q v l = Inl e)"
  unfolding search_typo3_extensions_def by (rule text_block_cases)

lemma get_typo3_api_reference_cases:
  "(\<exists>t. get_typo3_api_reference c m = Inr [\<lparr>tc_type = ''text'', tc_text = t\<rparr>]) \<or>
   (\<exists>e. get_typo3_api_reference c m = Inl e)"
  unfolding get_typo3_api_reference_def by (rule text_block_cases)

lemma get_typo3_coding_guidelines_cases:
  "(\<exists>t. get_typo3_coding_guidelines topic = Inr [\<lparr>tc_type = ''text'', tc_text = t\<rparr>]) \<or>
   (\<exists>e. get_typo3_coding_guidelines topic = Inl e)"
  by (cases topic)
     (simp_all add: get_typo3_coding_guidelines_str get_typo3_coding_guidelines_raises)

lemma call_tool_try_cases:
  "(\<exists>t. call_tool_try name arguments = Inr [\<lparr>tc_type = ''text'', tc_text = t\<rparr>]) \<or>
   (\<exists>e. call_tool_try name arguments = Inl e)"
  unfolding call_tool_try_def
  using search_typo3_docs_cases get_typo3_changelog_cases search_typo3_extensions_cases
    get_typo3_api_reference_cases get_typo3_coding_guidelines_cases
  by simp

lemma call_tool_of_Inr:
  "call_tool_try name arguments = Inr r \<Longrightarrow> call_tool name arguments log = (r, log)"
  by (simp add: call_tool_def)

lemma call_tool_of_Inl:
  "call_tool_try name arguments = Inl e \<Longrightarrow>
   call_tool name arguments log =
     ([\<lparr>tc_type = ''text'', tc_text = ''Error: '' @ str_exn e\<rparr>],
      log @ [''Error in tool '' @ [CHR 0x27] @ name @ [CHR 0x27] @ '': '' @ str_exn e])"
  by (simp add: call_tool_def)

lemma call_tool_try_handler_args:
  "call_tool_try name arguments = call_handler name (handler_args name arguments)"
  by (simp add: call_tool_try_def call_handler_def handler_args_def)

lemma call_tool_fst_log: "fst (call_tool name arguments log) = fst (call_tool name arguments log')"
  by (simp add: call_tool_def split: sum.splits)

lemma call_tool_handler_args_cong:
  assumes "handler_args tool arguments' = handler_args tool arguments"
  shows "call_tool tool arguments' log = call_tool tool arguments log"
  by (simp only: call_tool_def call_tool_try_handler_args assms)

text \<open>The opening of each generated text, and where the limit is shown.\<close>

lemma search_typo3_docs_heading:
  assumes "format_py q = Inr qs" and "convertible v" and "convertible sec"
  shows "\<exists>t. search_typo3_docs q v sec = Inr [\<lparr>tc_type = ''text'', tc_text = t\<rparr>]
       \<and> prefix (''# TYPO3 Documentation Search Results\<newline>\<newline>**Query:** '' @ qs @ ''\<newline>'') t"
proof -
  from assms(2) obtain vs where vs: "format_py v = Inr vs"
    by (rule convertible_format_py)
  from assms(3) obtain ss where ss: "format_py sec = Inr ss"
    by (rule convertible_format_py)
  from search_typo3_docs_shape [OF assms(1) vs ss] obtain s where
    eq: "search_typo3_docs q v sec =
      Inr [\<lparr>tc_type = ''text'',
            tc_text = ''# TYPO3 Documentation Search Results\<newline>\<newline>**Query:** '' @ qs @
              ''\<newline>**Version:** '' @ vs @ ''\<newline>**Section:** '' @ ss @ ''\<newline>'' @ s\<rparr>]" ..
  have "prefix (''# TYPO3 Documentation Search Results\<newline>\<newline>**Query:** '' @ qs @ ''\<newline>'')
      (''# TYPO3 Documentation Search Results\<newline>\<newline>**Query:** '' @ qs @
        ''\<newline>**Version:** '' @ vs @ ''\<newline>**Section:** '' @ ss @ ''\<newline>'' @ s)"
    by simp
  with eq show ?thesis
    by (intro exI conjI)
qed

lemma get_typo3_changelog_heading:
  assumes "format_py v = Inr vs" and "convertible ct" and "convertible l"
  shows "\<exists>t. get_typo3_changelog v ct l = Inr [\<lparr>tc_type = ''text'', tc_text = t\<rparr>]
       \<and> prefix (''# TYPO3 '' @ vs @ '' Changelog\<newline>'') t"
proof -
  from assms(2) obtain cs where cs: "format_py ct = Inr cs"
    by (rule convertible_format_py)
  from assms(3) obtain ls where ls: "format_py l = Inr ls"
    by (rule convertible_format_py)
  from get_typo3_changelog_shape [OF assms(1) cs ls] obtain s where
    eq: "get_typo3_changelog v ct l =
      Inr [\<lparr>tc_type = ''text'',
            tc_text = ''# TYPO3 '' @ vs @ '' Changelog\<newline>\<newline>**Type:** '' @ cs @
              ''\<newline>**Limit:** '' @ ls @ ''\<newline>'' @ s\<rparr>]" ..
  have "prefix (''# TYPO3 '' @ vs @ '' Changelog\<newline>'')
      (''# TYPO3 '' @ vs @ '' Changelog\<newline>\<newline>**Type:** '' @ cs @
        ''\<newline>**Limit:** '' @ ls @ ''\<newline>'' @ s)"
    by simp
  with eq show ?thesis
    by (intro exI conjI)
qed

lemma search_typo3_extensions_heading:
  assumes "format_py q = Inr qs" and "convertible v" and "convertible l"
  shows "\<exists>t. search_typo3_extensions q v l = Inr [\<lparr>tc_type = ''text'', tc_text = t\<rparr>]
       \<and> prefix (''# TYPO3 Extension Repository Search\<newline>\<newline>**Query:** '' @ qs @ ''\<newline>'') t"
proof -
  from assms(2) obtain vs where vs: "format_py v = Inr vs"
    by (rule convertible_format_py)
  from assms(3) obtain ls where ls: "format_py l = Inr ls"
    by (rule convertible_format_py)
  from search_typo3_extensions_shape [OF assms(1) vs ls] obtain s where
    eq: "search_typo3_extensions q v l =
      Inr [\<lparr>tc_type = ''text'',
            tc_text = ''# TYPO3 Extension Repository Search\<newline>\<newline>**Query:** '' @ qs @
              ''\<newline>**TYPO3 Version:** '' @ vs @ ''\<newline>**Limit:** '' @ ls @
              ''\<newline>'' @ s\<rparr>]" ..
  have "prefix (''# TYPO3 Extension Repository Search\<newline>\<newline>**Query:** '' @ qs @ ''\<newline>'')
      (''# TYPO3 Extension Repository Search\<newline>\<newline>**Query:** '' @ qs @
        ''\<newline>**TYPO3 Version:** '' @ vs @ ''\<newline>**Limit:** '' @ ls @ ''\<newline>'' @ s)"
    by simp
  with eq show ?thesis
    by (intro exI conjI)
qed

lemma get_typo3_api_reference_heading:
  assumes "\<not> py_in c api_docs" and "format_py c = Inr cs"
  shows "\<exists>t. get_typo3_api_reference c m = Inr [\<lparr>tc_type = ''text'', tc_text = t\<rparr>]
       \<and> prefix (''# '' @ cs @ ''\<newline>\<newline>API documentation for '' @ cs @ ''\<newline>'') t"
proof -
  from get_typo3_api_reference_generic [OF assms, of m] obtain s where
    eq: "get_typo3_api_reference c m =
      Inr [\<lparr>tc_type = ''text'',
            tc_text = ''# '' @ cs @ ''\<newline>\<newline>API documentation for '' @ cs @
              ''\<newline>'' @ s\<rparr>]" ..
  have "prefix (''# '' @ cs @ ''\<newline>\<newline>API documentation for '' @ cs @ ''\<newline>'')
      (''# '' @ cs @ ''\<newline>\<newline>API documentation for '' @ cs @ ''\<newline>'' @ s)"
    by simp
  with eq show ?thesis
    by (intro exI conjI)
qed

lemma get_typo3_changelog_limit_shown:
  assumes "convertible v" and "convertible ct" and "format_py l = Inr ls"
  shows "\<exists>t. get_typo3_changelog v ct l = Inr [\<lparr>tc_type = ''text'', tc_text = t\<rparr>]
       \<and> sublist (''**Limit:** '' @ ls @ ''\<newline>'') t"
proof -
  from assms(1) obtain vs where vs: "format_py v = Inr vs"
    by (rule convertible_format_py)
  from assms(2) obtain cs where cs: "format_py ct = Inr cs"
    by (rule convertible_format_py)
  let ?ps = "''# TYPO3 '' @ vs @ '' Changelog\<newline>\<newline>**Type:** '' @ cs @ ''\<newline>''"
  let ?x = "''**Limit:** '' @ ls @ ''\<newline>''"
  have "\<exists>ss. get_typo3_changelog v ct l = Inr [\<lparr>tc_type = ''text'', tc_text = ?ps @ ?x @ ss\<rparr>]"
    using vs cs assms(3) by (simp add: get_typo3_changelog_def)
  then obtain ss where eq:
    "get_typo3_changelog v ct l = Inr [\<lparr>tc_type = ''text'', tc_text = ?ps @ ?x @ ss\<rparr>]" ..
  show ?thesis
    by (rule exI, rule conjI, rule eq, rule sublist_appendI)
qed

lemma search_typo3_extensions_limit_shown:
  assumes "convertible q" and "convertible v" and "format_py l = Inr ls"
  shows "\<exists>t. search_typo3_extensions q v l = Inr [\<lparr>tc_type = ''text'', tc_text = t\<rparr>]
       \<and> sublist (''**Limit:** '' @ ls @ ''\<newline>'') t"
proof -
  from assms(1) obtain qs where qs: "format_py q = Inr qs"
    by (rule convertible_format_py)
  from assms(2) obtain vs where vs: "format_py v = Inr vs"
    by (rule convertible_format_py)
  let ?ps = "''# TYPO3 Extension Repository Search\<newline>\<newline>**Query:** '' @ qs @
             ''\<newline>**TYPO3 Version:** '' @ vs @ ''\<newline>''"
  let ?x = "''**Limit:** '' @ ls @ ''\<newline>''"
  have "\<exists>ss. search_typo3_extensions q v l = Inr [\<lparr>tc_type = ''text'', tc_text = ?ps @ ?x @ ss\<rparr>]"
    using qs vs assms(3) by (simp add: search_typo3_extensions_def)
  then obtain ss where eq:
    "search_typo3_extensions q v l = Inr [\<lparr>tc_type = ''text'', tc_text = ?ps @ ?x @ ss\<rparr>]" ..
  show ?thesis
    by (rule exI, rule conjI, rule eq, rule sublist_appendI)
qed

lemma required_params_cases:
  assumes "(tool, p) \<in> set required_params"
  obtains "tool = ''search_typo3_docs''" "p = ''query''"
    | "tool = ''get_typo3_changelog''" "p = ''version''"
    | "tool = ''search_typo3_extensions''" "p = ''query''"
    | "tool = ''get_typo3_api_reference''" "p = ''class_name''"
proof -
  from assms have "(tool, p) = (''search_typo3_docs'', ''query'') \<or>
      (tool, p) = (''get_typo3_changelog'', ''version'') \<or>
      (tool, p) = (''search_typo3_extensions'', ''query'') \<or>
      (tool, p) = (''get_typo3_api_reference'', ''class_name'')"
    unfolding required_params_eq by (simp only: list.set insert_iff empty_iff simp_thms)
  then show thesis
    using that by (elim disjE) (simp_all only: prod.inject)
qed

text \<open>
  Integers too long to convert. A power of ten with exponent \<open>k\<close> has \<open>k + 1\<close> digits, so
  from \<open>k = 4300\<close> on its conversion raises; a call that passes such a limit ends in the
  \<^verbatim>\<open>except\<close> clause.
\<close>

lemma length_str_nat_pow10: "length (str_nat (10 ^ k)) = Suc k"
proof (induction k)
  case 0
  show ?case
    by (simp add: str_nat.simps)
next
  case (Suc k)
  have "str_nat (10 * 10 ^ k) = str_nat (10 ^ k) @ [''0123456789'' ! 0]"
    by (subst str_nat.simps) simp
  with Suc show ?case
    by simp
qed

lemma pow10_not_convertible:
  assumes "int_max_str_digits \<le> k"
  shows "format_py (PInt (10 ^ k)) =
      Inl (ValueError (''Exceeds the limit (4300 digits) for integer string conversion; '' @
        ''use sys.set_int_max_str_digits() to increase the limit''))"
proof -
  have "nat \<bar>10 ^ k :: int\<bar> = 10 ^ k"
    by (simp add: nat_power_eq)
  then have "length (str_nat (nat \<bar>10 ^ k :: int\<bar>)) = Suc k"
    by (simp only: length_str_nat_pow10)
  with assms show ?thesis
    by (simp add: str_int_def)
qed

lemma get_typo3_changelog_limit_too_long:
  assumes "int_max_str_digits \<le> k"
  shows "call_tool ''get_typo3_changelog'' [''version'' \<mapsto> PStr v, ''limit'' \<mapsto> PInt (10 ^ k)] log =
      ([\<lparr>tc_type = ''text'',
          tc_text = ''Error: Exceeds the limit (4300 digits) for integer string conversion; '' @
            ''use sys.set_int_max_str_digits() to increase the limit''\<rparr>],
       log @ [''Error in tool '' @ [CHR 0x27] @ ''get_typo3_changelog'' @ [CHR 0x27] @
         '': Exceeds the limit (4300 digits) for integer string conversion; '' @
         ''use sys.set_int_max_str_digits() to increase the limit''])"
proof -
  note f = pow10_not_convertible [OF assms]
  have "get_typo3_changelog (PStr v) (PStr ''All'') (PInt (10 ^ k)) =
      Inl (ValueError (''Exceeds the limit (4300 digits) for integer string conversion; '' @
        ''use sys.set_int_max_str_digits() to increase the limit''))"
    unfolding get_typo3_changelog_def by (simp add: f del: format_py.simps(3))
  then have "call_tool_try ''get_typo3_changelog''
      [''version'' \<mapsto> PStr v, ''limit'' \<mapsto> PInt (10 ^ k)] =
      Inl (ValueError (''Exceeds the limit (4300 digits) for integer string conversion; '' @
        ''use sys.set_int_max_str_digits() to increase the limit''))"
    by (simp add: call_tool_try_def dict_get_def)
  from call_tool_of_Inl [OF this, of log] show ?thesis
    by simp
qed

subsection \<open>Unknown tool names\<close>

text \<open>
  C3. A call whose tool name is none of the five names of the catalogue does not raise:
  the \<^verbatim>\<open>try\<close> block returns normally, the log is left as it was, and the result is the
  single text block \<^verbatim>\<open>Unknown tool: \<close> followed by the requested name, whatever the
  argument mapping is.
\<close>

theorem unknown_tool_text:
  assumes "name \<notin> set (map tool_name list_tools)"
  shows "call_tool_try name arguments =
           Inr [\<lparr>tc_type = ''text'', tc_text = ''Unknown tool: '' @ name\<rparr>]
       \<and> call_tool name arguments log =
           ([\<lparr>tc_type = ''text'', tc_text = ''Unknown tool: '' @ name\<rparr>], log)"
proof -
  from assms have "name \<noteq> ''search_typo3_docs''" "name \<noteq> ''get_typo3_changelog''"
    "name \<noteq> ''search_typo3_extensions''" "name \<noteq> ''get_typo3_api_reference''"
    "name \<noteq> ''get_typo3_coding_guidelines''"
    unfolding tool_names_eq by auto
  then have "call_tool_try name arguments =
      Inr [\<lparr>tc_type = ''text'', tc_text = ''Unknown tool: '' @ name\<rparr>]"
    by (simp add: call_tool_try_def)
  then show ?thesis
    by (simp add: call_tool_of_Inr)
qed

theorem unknown_tool_text_witness:
  "''frobnicate'' \<notin> set (map tool_name list_tools)
   \<and> call_tool ''frobnicate'' [''query'' \<mapsto> PStr ''x''] [] =
       ([\<lparr>tc_type = ''text'', tc_text = ''Unknown tool: frobnicate''\<rparr>], [])"
proof -
  have h: "''frobnicate'' \<notin> set (map tool_name list_tools)"
    unfolding tool_names_eq by simp
  show ?thesis
    using h unknown_tool_text [OF h, of "[''query'' \<mapsto> PStr ''x'']" "[]"] by simp
qed

subsection \<open>Shape of every result\<close>

text \<open>
  C10. For every tool name, registered or not, and every argument mapping,
  \<^verbatim>\<open>call_tool\<close> returns a list of exactly one content block, of type \<^verbatim>\<open>text\<close>: on the
  five tool branches, on the unknown-tool branch and when an exception was caught.
\<close>

theorem call_tool_one_text_block:
  "\<exists>t. fst (call_tool name arguments log) = [\<lparr>tc_type = ''text'', tc_text = t\<rparr>]"
  using call_tool_try_cases [of name arguments]
  by (auto simp: call_tool_def)

subsection \<open>Calls that omit a required parameter\<close>

text \<open>
  C1 as stated fails: \<^verbatim>\<open>call_tool\<close> never consults the \<^verbatim>\<open>required\<close> list of a schema.
  The call \<^verbatim>\<open>search_typo3_docs\<close> with the empty argument mapping raises nothing and
  writes nothing to the log; its text is the ordinary search result with the query shown
  as \<^verbatim>\<open>None\<close>, and it does not start with \<^verbatim>\<open>Error:\<close>.
\<close>

theorem missing_required_counterexample:
  "\<not> isl (call_tool_try ''search_typo3_docs'' Map.empty)
   \<and> snd (call_tool ''search_typo3_docs'' Map.empty []) = []
   \<and> length (fst (call_tool ''search_typo3_docs'' Map.empty [])) = 1
   \<and> prefix ''# TYPO3 Documentation Search Results''
        (tc_text (hd (fst (call_tool ''search_typo3_docs'' Map.empty []))))
   \<and> sublist ''**Query:** None''
        (tc_text (hd (fst (call_tool ''search_typo3_docs'' Map.empty []))))
   \<and> \<not> prefix ''Error:''
        (tc_text (hd (fst (call_tool ''search_typo3_docs'' Map.empty []))))"
proof -
  let ?ps = "''# TYPO3 Documentation Search Results''"
  let ?x = "''**Query:** None''"
  have "\<exists>ss. search_typo3_docs PNone (PStr ''main'') (PStr ''all'') =
      Inr [\<lparr>tc_type = ''text'', tc_text = ?ps @ ''\<newline>\<newline>'' @ ?x @ ss\<rparr>]"
    by (simp add: search_typo3_docs_def)
  then obtain ss where "search_typo3_docs PNone (PStr ''main'') (PStr ''all'') =
      Inr [\<lparr>tc_type = ''text'', tc_text = ?ps @ ''\<newline>\<newline>'' @ ?x @ ss\<rparr>]" ..
  then have tr: "call_tool_try ''search_typo3_docs'' Map.empty =
      Inr [\<lparr>tc_type = ''text'', tc_text = ?ps @ ''\<newline>\<newline>'' @ ?x @ ss\<rparr>]"
    by (simp add: call_tool_try_def dict_get_def)
  have call: "call_tool ''search_typo3_docs'' Map.empty [] =
      ([\<lparr>tc_type = ''text'', tc_text = ?ps @ ''\<newline>\<newline>'' @ ?x @ ss\<rparr>], [])"
    by (rule call_tool_of_Inr) (rule tr)
  have "sublist ?x ((?ps @ ''\<newline>\<newline>'') @ ?x @ ss)"
    by (rule sublist_appendI)
  then have "sublist ?x (?ps @ ''\<newline>\<newline>'' @ ?x @ ss)"
    by simp
  moreover have "prefix ?ps (?ps @ ''\<newline>\<newline>'' @ ?x @ ss)"
    by (rule prefixI) simp
  moreover have "\<not> prefix ''Error:'' (?ps @ ''\<newline>\<newline>'' @ ?x @ ss)"
    by simp
  ultimately show ?thesis
    by (simp only: tr call fst_conv snd_conv list.sel TextContent.simps sum.disc
        list.size One_nat_def add_0 simp_thms)
qed

text \<open>
  C1, amended. For every tool and every parameter its schema declares required, a call
  whose argument mapping omits that parameter is not rejected: the tool body receives
  \<^verbatim>\<open>None\<close> for it, as its first argument, and the call behaves exactly as the call that
  passes \<^verbatim>\<open>None\<close> explicitly. Provided every value handed to the tool body can be
  converted to text (no integer of more than 4300 digits), no exception is raised, the
  log is unchanged, and the result is the tool's one text block, which opens with the
  omitted parameter rendered as \<^verbatim>\<open>None\<close> in its place: after \<^verbatim>\<open>**Query:** \<close> for the two
  search tools, in the title for the changelog, as the heading for the API reference.
\<close>

theorem missing_required_is_None:
  assumes "(tool, p) \<in> set required_params" and "arguments p = None"
  shows "call_tool tool arguments log = call_tool tool (arguments(p \<mapsto> PNone)) log
       \<and> hd (handler_args tool arguments) = PNone
       \<and> (list_all convertible (handler_args tool arguments) \<longrightarrow>
           (\<exists>t. call_tool_try tool arguments = Inr [\<lparr>tc_type = ''text'', tc_text = t\<rparr>]
              \<and> call_tool tool arguments log = ([\<lparr>tc_type = ''text'', tc_text = t\<rparr>], log)
              \<and> prefix
                   (if tool = ''search_typo3_docs'' then
                      ''# TYPO3 Documentation Search Results\<newline>\<newline>**Query:** None\<newline>''
                    else if tool = ''get_typo3_changelog'' then
                      ''# TYPO3 None Changelog\<newline>''
                    else if tool = ''search_typo3_extensions'' then
                      ''# TYPO3 Extension Repository Search\<newline>\<newline>**Query:** None\<newline>''
                    else
                      ''# None\<newline>\<newline>API documentation for None\<newline>'') t))"
proof -
  let ?heading = "if tool = ''search_typo3_docs'' then
                      ''# TYPO3 Documentation Search Results\<newline>\<newline>**Query:** None\<newline>''
                    else if tool = ''get_typo3_changelog'' then
                      ''# TYPO3 None Changelog\<newline>''
                    else if tool = ''search_typo3_extensions'' then
                      ''# TYPO3 Extension Repository Search\<newline>\<newline>**Query:** None\<newline>''
                    else
                      ''# None\<newline>\<newline>API documentation for None\<newline>''"
  have none: "format_py PNone = Inr ''None''"
    by simp
  have fin: ?thesis
    if same: "handler_args tool (arguments(p \<mapsto> PNone)) = handler_args tool arguments"
      and first: "hd (handler_args tool arguments) = PNone"
      and ok: "list_all convertible (handler_args tool arguments) \<Longrightarrow>
        \<exists>t. call_tool_try tool arguments = Inr [\<lparr>tc_type = ''text'', tc_text = t\<rparr>]
           \<and> prefix ?heading t"
  proof -
    have a: "call_tool tool arguments log = call_tool tool (arguments(p \<mapsto> PNone)) log"
      by (rule sym) (rule call_tool_handler_args_cong [OF same])
    have c: "\<exists>t. call_tool_try tool arguments = Inr [\<lparr>tc_type = ''text'', tc_text = t\<rparr>]
          \<and> call_tool tool arguments log = ([\<lparr>tc_type = ''text'', tc_text = t\<rparr>], log)
          \<and> prefix ?heading t"
      if conv: "list_all convertible (handler_args tool arguments)"
    proof -
      from ok [OF conv] obtain t where
        t: "call_tool_try tool arguments = Inr [\<lparr>tc_type = ''text'', tc_text = t\<rparr>]
           \<and> prefix ?heading t" ..
      have b: "call_tool tool arguments log = ([\<lparr>tc_type = ''text'', tc_text = t\<rparr>], log)"
        by (rule call_tool_of_Inr) (rule t [THEN conjunct1])
      show ?thesis
        by (rule exI [of _ t]) (intro conjI t [THEN conjunct1] b t [THEN conjunct2])
    qed
    show ?thesis
      by (rule conjI, rule a, rule conjI, rule first, rule impI, erule c)
  qed
  from assms(1) show ?thesis
  proof (cases rule: required_params_cases)
    case 1
    from assms(2) have args: "handler_args tool arguments =
        [PNone, dict_get arguments ''version'' (PStr ''main''),
         dict_get arguments ''section'' (PStr ''all'')]"
      by (simp add: 1 handler_args_def dict_get_def)
    have tr: "call_tool_try tool arguments =
        search_typo3_docs PNone (dict_get arguments ''version'' (PStr ''main''))
          (dict_get arguments ''section'' (PStr ''all''))"
      by (simp add: call_tool_try_handler_args args) (simp add: 1 call_handler_def)
    show ?thesis
    proof (rule fin)
      from assms(2)
      show "handler_args tool (arguments(p \<mapsto> PNone)) = handler_args tool arguments"
        by (simp add: 1 handler_args_def dict_get_def)
      show "hd (handler_args tool arguments) = PNone"
        by (simp add: args)
      assume "list_all convertible (handler_args tool arguments)"
      then have c: "convertible (dict_get arguments ''version'' (PStr ''main''))"
          "convertible (dict_get arguments ''section'' (PStr ''all''))"
        by (simp_all add: args)
      from search_typo3_docs_heading [OF none c] obtain t where
        t: "search_typo3_docs PNone (dict_get arguments ''version'' (PStr ''main''))
              (dict_get arguments ''section'' (PStr ''all'')) =
              Inr [\<lparr>tc_type = ''text'', tc_text = t\<rparr>]
            \<and> prefix (''# TYPO3 Documentation Search Results\<newline>\<newline>**Query:** '' @ ''None'' @ ''\<newline>'') t" ..
      from t [THEN conjunct1]
      have "call_tool_try tool arguments = Inr [\<lparr>tc_type = ''text'', tc_text = t\<rparr>]"
        by (simp only: tr)
      moreover from t [THEN conjunct2] have "prefix ?heading t"
        by (simp add: 1)
      ultimately show "\<exists>t. call_tool_try tool arguments = Inr [\<lparr>tc_type = ''text'', tc_text = t\<rparr>]
          \<and> prefix ?heading t"
        by (intro exI [of _ t] conjI)
    qed
  next
    case 2
    from assms(2) have args: "handler_args tool arguments =
        [PNone, dict_get arguments ''type'' (PStr ''All''),
         dict_get arguments ''limit'' (PInt 10)]"
      by (simp add: 2 handler_args_def dict_get_def)
    have tr: "call_tool_try tool arguments =
        get_typo3_changelog PNone (dict_get arguments ''type'' (PStr ''All''))
          (dict_get arguments ''limit'' (PInt 10))"
      by (simp add: call_tool_try_handler_args args) (simp add: 2 call_handler_def)
    show ?thesis
    proof (rule fin)
      from assms(2)
      show "handler_args tool (arguments(p \<mapsto> PNone)) = handler_args tool arguments"
        by (simp add: 2 handler_args_def dict_get_def)
      show "hd (handler_args tool arguments) = PNone"
        by (simp add: args)
      assume "list_all convertible (handler_args tool arguments)"
      then have c: "convertible (dict_get arguments ''type'' (PStr ''All''))"
          "convertible (dict_get arguments ''limit'' (PInt 10))"
        by (simp_all add: args)
      from get_typo3_changelog_heading [OF none c] obtain t where
        t: "get_typo3_changelog PNone (dict_get arguments ''type'' (PStr ''All''))
              (dict_get arguments ''limit'' (PInt 10)) =
              Inr [\<lparr>tc_type = ''text'', tc_text = t\<rparr>]
            \<and> prefix (''# TYPO3 '' @ ''None'' @ '' Changelog\<newline>'') t" ..
      from t [THEN conjunct1]
      have "call_tool_try tool arguments = Inr [\<lparr>tc_type = ''text'', tc_text = t\<rparr>]"
        by (simp only: tr)
      moreover from t [THEN conjunct2] have "prefix ?heading t"
        by (simp add: 2)
      ultimately show "\<exists>t. call_tool_try tool arguments = Inr [\<lparr>tc_type = ''text'', tc_text = t\<rparr>]
          \<and> prefix ?heading t"
        by (intro exI [of _ t] conjI)
    qed
  next
    case 3
    from assms(2) have args: "handler_args tool arguments =
        [PNone, dict_get arguments ''typo3_version'' (PStr ''12.4''),
         dict_get arguments ''limit'' (PInt 10)]"
      by (simp add: 3 handler_args_def dict_get_def)
    have tr: "call_tool_try tool arguments =
        search_typo3_extensions PNone (dict_get arguments ''typo3_version'' (PStr ''12.4''))
          (dict_get arguments ''limit'' (PInt 10))"
      by (simp add: call_tool_try_handler_args args) (simp add: 3 call_handler_def)
    show ?thesis
    proof (rule fin)
      from assms(2)
      show "handler_args tool (arguments(p \<mapsto> PNone)) = handler_args tool arguments"
        by (simp add: 3 handler_args_def dict_get_def)
      show "hd (handler_args tool arguments) = PNone"
        by (simp add: args)
      assume "list_all convertible (handler_args tool arguments)"
      then have c: "convertible (dict_get arguments ''typo3_version'' (PStr ''12.4''))"
          "convertible (dict_get arguments ''limit'' (PInt 10))"
        by (simp_all add: args)
      from search_typo3_extensions_heading [OF none c] obtain t where
        t: "search_typo3_extensions PNone (dict_get arguments ''typo3_version'' (PStr ''12.4''))
              (dict_get arguments ''limit'' (PInt 10)) =
              Inr [\<lparr>tc_type = ''text'', tc_text = t\<rparr>]
            \<and> prefix (''# TYPO3 Extension Repository Search\<newline>\<newline>**Query:** '' @ ''None'' @ ''\<newline>'') t" ..
      from t [THEN conjunct1]
      have "call_tool_try tool arguments = Inr [\<lparr>tc_type = ''text'', tc_text = t\<rparr>]"
        by (simp only: tr)
      moreover from t [THEN conjunct2] have "prefix ?heading t"
        by (simp add: 3)
      ultimately show "\<exists>t. call_tool_try tool arguments = Inr [\<lparr>tc_type = ''text'', tc_text = t\<rparr>]
          \<and> prefix ?heading t"
        by (intro exI [of _ t] conjI)
    qed
  next
    case 4
    from assms(2) have args: "handler_args tool arguments =
        [PNone, dict_get arguments ''method_name'' PNone]"
      by (simp add: 4 handler_args_def dict_get_def)
    have tr: "call_tool_try tool arguments =
        get_typo3_api_reference PNone (dict_get arguments ''method_name'' PNone)"
      by (simp add: call_tool_try_handler_args args) (simp add: 4 call_handler_def)
    show ?thesis
    proof (rule fin)
      from assms(2)
      show "handler_args tool (arguments(p \<mapsto> PNone)) = handler_args tool arguments"
        by (simp add: 4 handler_args_def dict_get_def)
      show "hd (handler_args tool arguments) = PNone"
        by (simp add: args)
      from get_typo3_api_reference_heading [OF not_py_in_None none] obtain t where
        t: "get_typo3_api_reference PNone (dict_get arguments ''method_name'' PNone) =
              Inr [\<lparr>tc_type = ''text'', tc_text = t\<rparr>]
            \<and> prefix (''# '' @ ''None'' @ ''\<newline>\<newline>API documentation for '' @ ''None'' @ ''\<newline>'') t" ..
      from t [THEN conjunct1]
      have "call_tool_try tool arguments = Inr [\<lparr>tc_type = ''text'', tc_text = t\<rparr>]"
        by (simp only: tr)
      moreover from t [THEN conjunct2] have "prefix ?heading t"
        by (simp add: 4)
      ultimately show "\<exists>t. call_tool_try tool arguments = Inr [\<lparr>tc_type = ''text'', tc_text = t\<rparr>]
          \<and> prefix ?heading t"
        by (intro exI [of _ t] conjI)
    qed
  qed
qed

theorem missing_required_is_None_witness:
  "(''get_typo3_changelog'', ''version'') \<in> set required_params
   \<and> [''limit'' \<mapsto> PInt 3] ''version'' = None
   \<and> list_all convertible (handler_args ''get_typo3_changelog'' [''limit'' \<mapsto> PInt 3])
   \<and> call_tool ''get_typo3_changelog'' [''limit'' \<mapsto> PInt 3] [] =
       call_tool ''get_typo3_changelog'' [''limit'' \<mapsto> PInt 3, ''version'' \<mapsto> PNone] []
   \<and> (\<exists>t. call_tool ''get_typo3_changelog'' [''limit'' \<mapsto> PInt 3] [] =
             ([\<lparr>tc_type = ''text'', tc_text = t\<rparr>], [])
          \<and> prefix ''# TYPO3 None Changelog\<newline>'' t)"
proof -
  have h1: "(''get_typo3_changelog'', ''version'') \<in> set required_params"
    unfolding required_params_eq by simp
  have h2: "[''limit'' \<mapsto> PInt 3] ''version'' = None"
    by simp
  have h3: "list_all convertible (handler_args ''get_typo3_changelog'' [''limit'' \<mapsto> PInt 3])"
    by (simp add: handler_args_def dict_get_def convertible_def str_int_def
        int_max_str_digits_def str_nat.simps)
  note th = missing_required_is_None
    [of "''get_typo3_changelog''" "''version''" "[''limit'' \<mapsto> PInt 3]" "[]", OF h1 h2]
  from th [THEN conjunct2, THEN conjunct2, rule_format, OF h3] obtain t where
    t: "call_tool_try ''get_typo3_changelog'' [''limit'' \<mapsto> PInt 3] =
          Inr [\<lparr>tc_type = ''text'', tc_text = t\<rparr>]
        \<and> call_tool ''get_typo3_changelog'' [''limit'' \<mapsto> PInt 3] [] =
          ([\<lparr>tc_type = ''text'', tc_text = t\<rparr>], [])
        \<and> prefix ''# TYPO3 None Changelog\<newline>'' t"
    by (elim exE) simp
  from t [THEN conjunct2] have "\<exists>t. call_tool ''get_typo3_changelog'' [''limit'' \<mapsto> PInt 3] [] =
             ([\<lparr>tc_type = ''text'', tc_text = t\<rparr>], [])
          \<and> prefix ''# TYPO3 None Changelog\<newline>'' t"
    by (rule exI)
  with h1 h2 h3 th [THEN conjunct1] show ?thesis
    by (intro conjI)
qed

subsection \<open>Integer parameters outside their declared bounds\<close>

text \<open>
  C2 as stated fails: the \<^verbatim>\<open>minimum\<close> and \<^verbatim>\<open>maximum\<close> of a schema are never compared
  with an argument. The call \<^verbatim>\<open>search_typo3_extensions\<close> with the query \<^verbatim>\<open>news\<close> and
  the limit 100 raises nothing and writes nothing to the log; its text is the ordinary
  result, which shows the limit 100 and does not start with \<^verbatim>\<open>Error:\<close>.
\<close>

theorem limit_out_of_bounds_counterexample:
  "\<not> isl (call_tool_try ''search_typo3_extensions''
            [''query'' \<mapsto> PStr ''news'', ''limit'' \<mapsto> PInt 100])
   \<and> snd (call_tool ''search_typo3_extensions''
            [''query'' \<mapsto> PStr ''news'', ''limit'' \<mapsto> PInt 100] []) = []
   \<and> length (fst (call_tool ''search_typo3_extensions''
            [''query'' \<mapsto> PStr ''news'', ''limit'' \<mapsto> PInt 100] [])) = 1
   \<and> prefix ''# TYPO3 Extension Repository Search''
        (tc_text (hd (fst (call_tool ''search_typo3_extensions''
            [''query'' \<mapsto> PStr ''news'', ''limit'' \<mapsto> PInt 100] []))))
   \<and> sublist ''**Limit:** 100''
        (tc_text (hd (fst (call_tool ''search_typo3_extensions''
            [''query'' \<mapsto> PStr ''news'', ''limit'' \<mapsto> PInt 100] []))))
   \<and> \<not> prefix ''Error:''
        (tc_text (hd (fst (call_tool ''search_typo3_extensions''
            [''query'' \<mapsto> PStr ''news'', ''limit'' \<mapsto> PInt 100] []))))"
proof -
  let ?args = "[''query'' \<mapsto> PStr ''news'', ''limit'' \<mapsto> PInt 100]"
  let ?ps = "''# TYPO3 Extension Repository Search''"
  let ?mid = "''\<newline>\<newline>**Query:** news\<newline>**TYPO3 Version:** 12.4\<newline>''"
  let ?x = "''**Limit:** 100''"
  have "\<exists>ss. search_typo3_extensions (PStr ''news'') (PStr ''12.4'') (PInt 100) =
      Inr [\<lparr>tc_type = ''text'', tc_text = ?ps @ ?mid @ ?x @ ss\<rparr>]"
    using format_py_int_100 by (simp add: search_typo3_extensions_def)
  then obtain ss where "search_typo3_extensions (PStr ''news'') (PStr ''12.4'') (PInt 100) =
      Inr [\<lparr>tc_type = ''text'', tc_text = ?ps @ ?mid @ ?x @ ss\<rparr>]" ..
  then have tr: "call_tool_try ''search_typo3_extensions'' ?args =
      Inr [\<lparr>tc_type = ''text'', tc_text = ?ps @ ?mid @ ?x @ ss\<rparr>]"
    by (simp add: call_tool_try_def dict_get_def)
  have call: "call_tool ''search_typo3_extensions'' ?args [] =
      ([\<lparr>tc_type = ''text'', tc_text = ?ps @ ?mid @ ?x @ ss\<rparr>], [])"
    by (rule call_tool_of_Inr) (rule tr)
  have "sublist ?x ((?ps @ ?mid) @ ?x @ ss)"
    by (rule sublist_appendI)
  then have "sublist ?x (?ps @ ?mid @ ?x @ ss)"
    by simp
  moreover have "prefix ?ps (?ps @ ?mid @ ?x @ ss)"
    by (rule prefixI) simp
  moreover have "\<not> prefix ''Error:'' (?ps @ ?mid @ ?x @ ss)"
    by simp
  ultimately show ?thesis
    by (simp only: tr call fst_conv snd_conv list.sel TextContent.simps sum.disc
        list.size One_nat_def add_0 simp_thms)
qed

text \<open>
  C2, amended. For every call of \<^verbatim>\<open>get_typo3_changelog\<close> or \<^verbatim>\<open>search_typo3_extensions\<close>
  that supplies an integer \<^verbatim>\<open>limit\<close>, inside or outside the declared bounds 1 to 50,
  the value is passed to the tool body unchecked and unchanged, as its third argument.
  Provided every value handed to the tool body can be converted to text (no integer of
  more than 4300 digits, the limit included), no exception is raised, the log is
  unchanged, and the result is the tool's one text block, which shows the supplied value
  in decimal after \<^verbatim>\<open>**Limit:** \<close>.
\<close>

theorem limit_not_checked:
  assumes "tool = ''get_typo3_changelog'' \<or> tool = ''search_typo3_extensions''"
    and "arguments ''limit'' = Some (PInt n)"
    and "list_all convertible (handler_args tool arguments)"
  shows "handler_args tool arguments ! 2 = PInt n
       \<and> (\<exists>t. call_tool_try tool arguments = Inr [\<lparr>tc_type = ''text'', tc_text = t\<rparr>]
            \<and> call_tool tool arguments log = ([\<lparr>tc_type = ''text'', tc_text = t\<rparr>], log)
            \<and> sublist (''**Limit:** '' @ decimal n @ ''\<newline>'') t)"
proof -
  from assms(2) have l: "dict_get arguments ''limit'' (PInt 10) = PInt n"
    by (simp add: dict_get_def)
  have fin: ?thesis
    if "handler_args tool arguments ! 2 = PInt n"
      and "call_tool_try tool arguments = Inr [\<lparr>tc_type = ''text'', tc_text = t\<rparr>]"
      and "sublist (''**Limit:** '' @ decimal n @ ''\<newline>'') t" for t
  proof -
    have b: "call_tool tool arguments log = ([\<lparr>tc_type = ''text'', tc_text = t\<rparr>], log)"
      by (rule call_tool_of_Inr) (rule that(2))
    show ?thesis
      by (rule conjI, rule that(1), rule exI [of _ t]) (intro conjI that(2) b that(3))
  qed
  from assms(1) show ?thesis
  proof
    assume tool: "tool = ''get_typo3_changelog''"
    have args: "handler_args tool arguments =
        [dict_get arguments ''version'' PNone, dict_get arguments ''type'' (PStr ''All''), PInt n]"
      by (simp add: tool handler_args_def l)
    from assms(3) have c: "convertible (dict_get arguments ''version'' PNone)"
        "convertible (dict_get arguments ''type'' (PStr ''All''))" "convertible (PInt n)"
      by (simp_all add: args)
    from c(3) have f: "format_py (PInt n) = Inr (decimal n)"
      by (rule format_py_PInt_convertible)
    from get_typo3_changelog_limit_shown [OF c(1,2) f] obtain t where
      t: "get_typo3_changelog (dict_get arguments ''version'' PNone)
            (dict_get arguments ''type'' (PStr ''All'')) (PInt n) =
            Inr [\<lparr>tc_type = ''text'', tc_text = t\<rparr>]
          \<and> sublist (''**Limit:** '' @ decimal n @ ''\<newline>'') t" ..
    show ?thesis
    proof (rule fin)
      show "handler_args tool arguments ! 2 = PInt n"
        by (simp add: args)
      show "call_tool_try tool arguments = Inr [\<lparr>tc_type = ''text'', tc_text = t\<rparr>]"
        using t [THEN conjunct1] by (simp add: tool call_tool_try_def l)
      show "sublist (''**Limit:** '' @ decimal n @ ''\<newline>'') t"
        by (rule t [THEN conjunct2])
    qed
  next
    assume tool: "tool = ''search_typo3_extensions''"
    have args: "handler_args tool arguments =
        [dict_get arguments ''query'' PNone,
         dict_get arguments ''typo3_version'' (PStr ''12.4''), PInt n]"
      by (simp add: tool handler_args_def l)
    from assms(3) have c: "convertible (dict_get arguments ''query'' PNone)"
        "convertible (dict_get arguments ''typo3_version'' (PStr ''12.4''))" "convertible (PInt n)"
      by (simp_all add: args)
    from c(3) have f: "format_py (PInt n) = Inr (decimal n)"
      by (rule format_py_PInt_convertible)
    from search_typo3_extensions_limit_shown [OF c(1,2) f] obtain t where
      t: "search_typo3_extensions (dict_get arguments ''query'' PNone)
            (dict_get arguments ''typo3_version'' (PStr ''12.4'')) (PInt n) =
            Inr [\<lparr>tc_type = ''text'', tc_text = t\<rparr>]
          \<and> sublist (''**Limit:** '' @ decimal n @ ''\<newline>'') t" ..
    show ?thesis
    proof (rule fin)
      show "handler_args tool arguments ! 2 = PInt n"
        by (simp add: args)
      show "call_tool_try tool arguments = Inr [\<lparr>tc_type = ''text'', tc_text = t\<rparr>]"
        using t [THEN conjunct1] by (simp add: tool call_tool_try_def l)
      show "sublist (''**Limit:** '' @ decimal n @ ''\<newline>'') t"
        by (rule t [THEN conjunct2])
    qed
  qed
qed

theorem limit_not_checked_witness:
  "(''get_typo3_changelog'' = ''get_typo3_changelog''
      \<or> ''get_typo3_changelog'' = ''search_typo3_extensions'')
   \<and> [''version'' \<mapsto> PStr ''12.4'', ''limit'' \<mapsto> PInt 51] ''limit'' = Some (PInt 51)
   \<and> list_all convertible (handler_args ''get_typo3_changelog''
         [''version'' \<mapsto> PStr ''12.4'', ''limit'' \<mapsto> PInt 51])
   \<and> (\<exists>t. call_tool ''get_typo3_changelog''
              [''version'' \<mapsto> PStr ''12.4'', ''limit'' \<mapsto> PInt 51] [] =
             ([\<lparr>tc_type = ''text'', tc_text = t\<rparr>], [])
          \<and> sublist ''**Limit:** 51\<newline>'' t)"
proof -
  have h1: "''get_typo3_changelog'' = ''get_typo3_changelog''
      \<or> ''get_typo3_changelog'' = ''search_typo3_extensions''"
    by simp
  have h2: "[''version'' \<mapsto> PStr ''12.4'', ''limit'' \<mapsto> PInt 51] ''limit'' = Some (PInt 51)"
    by simp
  have h3: "list_all convertible (handler_args ''get_typo3_changelog''
      [''version'' \<mapsto> PStr ''12.4'', ''limit'' \<mapsto> PInt 51])"
    by (simp add: handler_args_def dict_get_def convertible_def str_int_def
        int_max_str_digits_def str_nat.simps)
  have d: "decimal 51 = ''51''"
    by (simp add: decimal_def str_nat.simps)
  note th = limit_not_checked
    [of "''get_typo3_changelog''" "[''version'' \<mapsto> PStr ''12.4'', ''limit'' \<mapsto> PInt 51]" 51 "[]",
     OF h1 h2 h3]
  from th [THEN conjunct2] obtain t where
    t: "call_tool_try ''get_typo3_changelog'' [''version'' \<mapsto> PStr ''12.4'', ''limit'' \<mapsto> PInt 51] =
          Inr [\<lparr>tc_type = ''text'', tc_text = t\<rparr>]
        \<and> call_tool ''get_typo3_changelog''
            [''version'' \<mapsto> PStr ''12.4'', ''limit'' \<mapsto> PInt 51] [] =
          ([\<lparr>tc_type = ''text'', tc_text = t\<rparr>], [])
        \<and> sublist (''**Limit:** '' @ decimal 51 @ ''\<newline>'') t" ..
  from t [THEN conjunct2] have "call_tool ''get_typo3_changelog''
            [''version'' \<mapsto> PStr ''12.4'', ''limit'' \<mapsto> PInt 51] [] =
          ([\<lparr>tc_type = ''text'', tc_text = t\<rparr>], [])
        \<and> sublist ''**Limit:** 51\<newline>'' t"
    by (simp add: d)
  then have "\<exists>t. call_tool ''get_typo3_changelog''
            [''version'' \<mapsto> PStr ''12.4'', ''limit'' \<mapsto> PInt 51] [] =
          ([\<lparr>tc_type = ''text'', tc_text = t\<rparr>], [])
        \<and> sublist ''**Limit:** 51\<newline>'' t"
    by (rule exI)
  with h1 h2 h3 show ?thesis
    by (intro conjI)
qed

subsection \<open>Exceptions raised by a tool body\<close>

text \<open>
  C4. Whenever the \<^verbatim>\<open>try\<close> block of \<^verbatim>\<open>call_tool\<close> raises an exception \<open>e\<close>, for any tool
  name and argument mapping, \<^verbatim>\<open>call_tool\<close> itself returns: its result is the single text
  block \<^verbatim>\<open>Error: \<close> followed by \<^verbatim>\<open>str(e)\<close>, and the only effect is one more line in the
  log. The result of any later call is what it would have been without the failed call.
\<close>

theorem handler_fault_caught:
  assumes "call_tool_try name arguments = Inl e"
  shows "call_tool name arguments log =
           ([\<lparr>tc_type = ''text'', tc_text = ''Error: '' @ str_exn e\<rparr>],
            log @ [''Error in tool '' @ [CHR 0x27] @ name @ [CHR 0x27] @ '': '' @ str_exn e])
       \<and> prefix ''Error:'' (tc_text (hd (fst (call_tool name arguments log))))
       \<and> fst (call_tool name' arguments' (snd (call_tool name arguments log))) =
           fst (call_tool name' arguments' log)"
proof -
  have c: "call_tool name arguments log =
      ([\<lparr>tc_type = ''text'', tc_text = ''Error: '' @ str_exn e\<rparr>],
       log @ [''Error in tool '' @ [CHR 0x27] @ name @ [CHR 0x27] @ '': '' @ str_exn e])"
    using assms by (rule call_tool_of_Inl)
  have "prefix ''Error:'' (''Error: '' @ str_exn e)"
    by simp
  then have "prefix ''Error:'' (tc_text (hd (fst (call_tool name arguments log))))"
    by (simp only: c fst_conv list.sel TextContent.simps)
  moreover have "fst (call_tool name' arguments' (snd (call_tool name arguments log))) =
      fst (call_tool name' arguments' log)"
    by (rule call_tool_fst_log)
  ultimately show ?thesis
    using c by (intro conjI)
qed

theorem handler_fault_caught_witness:
  "call_tool_try ''get_typo3_coding_guidelines'' [''topic'' \<mapsto> PInt 5] =
     Inl (TypeError ''can only concatenate str (not \"int\") to str'')
   \<and> fst (call_tool ''get_typo3_coding_guidelines'' [''topic'' \<mapsto> PInt 5] []) =
       [\<lparr>tc_type = ''text'', tc_text = ''Error: can only concatenate str (not \"int\") to str''\<rparr>]
   \<and> fst (call_tool ''get_typo3_coding_guidelines'' [''topic'' \<mapsto> PStr ''security'']
         (snd (call_tool ''get_typo3_coding_guidelines'' [''topic'' \<mapsto> PInt 5] []))) =
       [\<lparr>tc_type = ''text'', tc_text = ''Guidelines for security''\<rparr>]"
proof -
  have h: "call_tool_try ''get_typo3_coding_guidelines'' [''topic'' \<mapsto> PInt 5] =
      Inl (TypeError ''can only concatenate str (not \"int\") to str'')"
    by (simp add: call_tool_try_def dict_get_def get_typo3_coding_guidelines_raises)
  have ok: "fst (call_tool ''get_typo3_coding_guidelines'' [''topic'' \<mapsto> PStr ''security''] []) =
      [\<lparr>tc_type = ''text'', tc_text = ''Guidelines for security''\<rparr>]"
    by (simp add: call_tool_def call_tool_try_def dict_get_def get_typo3_coding_guidelines_str
        guidelines_def)
  note th = handler_fault_caught [OF h, of "[]" "''get_typo3_coding_guidelines''"
      "[''topic'' \<mapsto> PStr ''security'']"]
  from th [THEN conjunct1]
  have "fst (call_tool ''get_typo3_coding_guidelines'' [''topic'' \<mapsto> PInt 5] []) =
      [\<lparr>tc_type = ''text'', tc_text = ''Error: can only concatenate str (not \"int\") to str''\<rparr>]"
    by simp
  moreover from th [THEN conjunct2, THEN conjunct2] ok
  have "fst (call_tool ''get_typo3_coding_guidelines'' [''topic'' \<mapsto> PStr ''security'']
         (snd (call_tool ''get_typo3_coding_guidelines'' [''topic'' \<mapsto> PInt 5] []))) =
       [\<lparr>tc_type = ''text'', tc_text = ''Guidelines for security''\<rparr>]"
    by (rule trans)
  ultimately show ?thesis
    using h by (intro conjI)
qed

subsection \<open>Lookup keys absent from the static tables\<close>

lemma dom_api_docs:
  "dom api_docs =
     {''TYPO3'' @ [CHR 0x5C] @ ''CMS'' @ [CHR 0x5C] @ ''Core'' @ [CHR 0x5C] @ ''Database'' @ [CHR 0x5C] @ ''ConnectionPool'',
      ''TYPO3'' @ [CHR 0x5C] @ ''CMS'' @ [CHR 0x5C] @ ''Core'' @ [CHR 0x5C] @ ''Http'' @ [CHR 0x5C] @ ''RequestFactory''}"
  by (auto simp add: api_docs_def split: if_splits)

lemma dom_guidelines: "dom guidelines = {''php'', ''database''}"
  by (auto simp add: guidelines_def split: if_splits)

text \<open>
  C7 as stated fails for a key that is not a string. The topic \<^verbatim>\<open>None\<close> (a JSON
  \<^verbatim>\<open>null\<close>) is not a key of \<^verbatim>\<open>guidelines\<close>, yet \<^verbatim>\<open>get_typo3_coding_guidelines\<close> returns
  no generic text for it: the concatenation that builds the fallback raises a
  \<^verbatim>\<open>TypeError\<close>, which \<^verbatim>\<open>call_tool\<close> reports as an \<^verbatim>\<open>Error:\<close> text and logs.
\<close>

theorem absent_key_counterexample:
  "\<not> py_in PNone guidelines
   \<and> get_typo3_coding_guidelines PNone =
       Inl (TypeError ''can only concatenate str (not \"NoneType\") to str'')
   \<and> call_tool ''get_typo3_coding_guidelines'' [''topic'' \<mapsto> PNone] [] =
       ([\<lparr>tc_type = ''text'',
           tc_text = ''Error: can only concatenate str (not \"NoneType\") to str''\<rparr>],
        [''Error in tool '' @ [CHR 0x27] @ ''get_typo3_coding_guidelines'' @ [CHR 0x27] @
         '': can only concatenate str (not \"NoneType\") to str''])"
proof -
  have a: "\<not> py_in PNone guidelines"
    by (rule not_py_in_None)
  have b: "get_typo3_coding_guidelines PNone =
      Inl (TypeError ''can only concatenate str (not \"NoneType\") to str'')"
    by (simp add: get_typo3_coding_guidelines_raises)
  have "call_tool_try ''get_typo3_coding_guidelines'' [''topic'' \<mapsto> PNone] =
      Inl (TypeError ''can only concatenate str (not \"NoneType\") to str'')"
    by (simp add: call_tool_try_def dict_get_def b)
  from call_tool_of_Inl [OF this, of "[]"]
  have "call_tool ''get_typo3_coding_guidelines'' [''topic'' \<mapsto> PNone] [] =
       ([\<lparr>tc_type = ''text'',
           tc_text = ''Error: can only concatenate str (not \"NoneType\") to str''\<rparr>],
        [''Error in tool '' @ [CHR 0x27] @ ''get_typo3_coding_guidelines'' @ [CHR 0x27] @
         '': can only concatenate str (not \"NoneType\") to str''])"
    by simp
  with a b show ?thesis
    by (intro conjI)
qed

text \<open>
  C7, amended. For every lookup key that is a string: a class name other than the two
  keys of \<^verbatim>\<open>api_docs\<close> makes \<^verbatim>\<open>get_typo3_api_reference\<close> return, without raising, one text
  block that opens with the requested name as its heading and the line
  \<^verbatim>\<open>API documentation for\<close> that name. A topic other than \<^verbatim>\<open>php\<close> and \<^verbatim>\<open>database\<close> makes
  \<^verbatim>\<open>get_typo3_coding_guidelines\<close> return, without raising, the one text block
  \<^verbatim>\<open>Guidelines for \<close> followed by the topic. Through \<^verbatim>\<open>call_tool\<close> both are ordinary
  results and nothing is logged.
\<close>

theorem absent_key_generic_text:
  assumes "class_name \<notin> dom api_docs" and "topic \<notin> dom guidelines"
  shows "(\<exists>s. get_typo3_api_reference (PStr class_name) method_name =
             Inr [\<lparr>tc_type = ''text'',
                   tc_text = ''# '' @ class_name @ ''\<newline>\<newline>API documentation for '' @ class_name @
                     ''\<newline>'' @ s\<rparr>]
           \<and> call_tool ''get_typo3_api_reference'' [''class_name'' \<mapsto> PStr class_name] log =
             ([\<lparr>tc_type = ''text'',
                 tc_text = ''# '' @ class_name @ ''\<newline>\<newline>API documentation for '' @ class_name @
                   ''\<newline>'' @ s\<rparr>], log))
       \<and> get_typo3_coding_guidelines (PStr topic) =
           Inr [\<lparr>tc_type = ''text'', tc_text = ''Guidelines for '' @ topic\<rparr>]
       \<and> call_tool ''get_typo3_coding_guidelines'' [''topic'' \<mapsto> PStr topic] log =
           ([\<lparr>tc_type = ''text'', tc_text = ''Guidelines for '' @ topic\<rparr>], log)"
proof -
  from assms(1) have absent: "\<not> py_in (PStr class_name) api_docs"
    by (simp add: py_in_def dom_def)
  have conv: "format_py (PStr class_name) = Inr class_name"
    by simp
  from get_typo3_api_reference_generic [OF absent conv, of method_name]
  obtain s where s: "get_typo3_api_reference (PStr class_name) method_name =
      Inr [\<lparr>tc_type = ''text'',
            tc_text = ''# '' @ class_name @ ''\<newline>\<newline>API documentation for '' @ class_name @
              ''\<newline>'' @ s\<rparr>]" ..
  have s': "get_typo3_api_reference (PStr class_name) PNone =
      get_typo3_api_reference (PStr class_name) method_name"
    by (simp add: get_typo3_api_reference_def)
  have "call_tool_try ''get_typo3_api_reference'' [''class_name'' \<mapsto> PStr class_name] =
      get_typo3_api_reference (PStr class_name) method_name"
    by (simp add: call_tool_try_def dict_get_def s')
  then have a: "call_tool ''get_typo3_api_reference'' [''class_name'' \<mapsto> PStr class_name] log =
      ([\<lparr>tc_type = ''text'',
          tc_text = ''# '' @ class_name @ ''\<newline>\<newline>API documentation for '' @ class_name @
            ''\<newline>'' @ s\<rparr>], log)"
    by (simp only: call_tool_def s sum.case)
  from assms(2) have "guidelines topic = None"
    by (simp add: dom_def)
  then have g: "get_typo3_coding_guidelines (PStr topic) =
      Inr [\<lparr>tc_type = ''text'', tc_text = ''Guidelines for '' @ topic\<rparr>]"
    by (simp only: get_typo3_coding_guidelines_str option.case)
  have "call_tool_try ''get_typo3_coding_guidelines'' [''topic'' \<mapsto> PStr topic] =
      get_typo3_coding_guidelines (PStr topic)"
    by (simp add: call_tool_try_def dict_get_def)
  then have b: "call_tool ''get_typo3_coding_guidelines'' [''topic'' \<mapsto> PStr topic] log =
      ([\<lparr>tc_type = ''text'', tc_text = ''Guidelines for '' @ topic\<rparr>], log)"
    by (simp only: call_tool_def g sum.case)
  from s a g b show ?thesis
    by (intro conjI exI [of _ s])
qed

theorem absent_key_generic_text_witness:
  "''Foo'' \<notin> dom api_docs \<and> ''security'' \<notin> dom guidelines
   \<and> (\<exists>s. get_typo3_api_reference (PStr ''Foo'') PNone =
             Inr [\<lparr>tc_type = ''text'',
                   tc_text = ''# Foo\<newline>\<newline>API documentation for Foo\<newline>'' @ s\<rparr>])
   \<and> call_tool ''get_typo3_coding_guidelines'' [''topic'' \<mapsto> PStr ''security''] [] =
       ([\<lparr>tc_type = ''text'', tc_text = ''Guidelines for security''\<rparr>], [])"
proof -
  have h1: "''Foo'' \<notin> dom api_docs"
    unfolding dom_api_docs by simp
  have h2: "''security'' \<notin> dom guidelines"
    unfolding dom_guidelines by simp
  note th = absent_key_generic_text [OF h1 h2, of PNone "[]"]
  from th [THEN conjunct1] obtain s where
    "get_typo3_api_reference (PStr ''Foo'') PNone =
       Inr [\<lparr>tc_type = ''text'',
             tc_text = ''# '' @ ''Foo'' @ ''\<newline>\<newline>API documentation for '' @ ''Foo'' @ ''\<newline>'' @ s\<rparr>]"
    by (elim exE conjE)
  then have "get_typo3_api_reference (PStr ''Foo'') PNone =
       Inr [\<lparr>tc_type = ''text'',
             tc_text = ''# Foo\<newline>\<newline>API documentation for Foo\<newline>'' @ s\<rparr>]"
    by simp
  then have "\<exists>s. get_typo3_api_reference (PStr ''Foo'') PNone =
       Inr [\<lparr>tc_type = ''text'',
             tc_text = ''# Foo\<newline>\<newline>API documentation for Foo\<newline>'' @ s\<rparr>]"
    by (rule exI)
  moreover from th [THEN conjunct2, THEN conjunct2]
  have "call_tool ''get_typo3_coding_guidelines'' [''topic'' \<mapsto> PStr ''security''] [] =
       ([\<lparr>tc_type = ''text'', tc_text = ''Guidelines for security''\<rparr>], [])"
    by simp
  ultimately show ?thesis
    using h1 h2 by (intro conjI)
qed

subsection \<open>Defaults of optional parameters\<close>

lemma declared_defaults_cases:
  assumes "(tool, p, d) \<in> set declared_defaults"
  obtains "tool = ''search_typo3_docs''" "p = ''version''" "d = PStr ''main''"
    | "tool = ''search_typo3_docs''" "p = ''section''" "d = PStr ''all''"
    | "tool = ''get_typo3_changelog''" "p = ''type''" "d = PStr ''All''"
    | "tool = ''get_typo3_changelog''" "p = ''limit''" "d = PInt 10"
    | "tool = ''search_typo3_extensions''" "p = ''typo3_version''" "d = PStr ''12.4''"
    | "tool = ''search_typo3_extensions''" "p = ''limit''" "d = PInt 10"
    | "tool = ''get_typo3_coding_guidelines''" "p = ''topic''" "d = PStr ''php''"
proof -
  from assms have "(tool, p, d) = (''search_typo3_docs'', ''version'', PStr ''main'') \<or>
      (tool, p, d) = (''search_typo3_docs'', ''section'', PStr ''all'') \<or>
      (tool, p, d) = (''get_typo3_changelog'', ''type'', PStr ''All'') \<or>
      (tool, p, d) = (''get_typo3_changelog'', ''limit'', PInt 10) \<or>
      (tool, p, d) = (''search_typo3_extensions'', ''typo3_version'', PStr ''12.4'') \<or>
      (tool, p, d) = (''search_typo3_extensions'', ''limit'', PInt 10) \<or>
      (tool, p, d) = (''get_typo3_coding_guidelines'', ''topic'', PStr ''php'')"
    unfolding declared_defaults_eq by (simp only: list.set insert_iff empty_iff simp_thms)
  then show thesis
    using that by (elim disjE) (simp_all only: prod.inject)
qed

lemma handler_args_default:
  assumes "(tool, p, d) \<in> set declared_defaults" and "arguments p = None"
  shows "d \<in> set (handler_args tool arguments) \<and>
      handler_args tool (arguments(p \<mapsto> d)) = handler_args tool arguments"
  using assms(1)
proof (cases rule: declared_defaults_cases)
  case 1
  with assms(2) show ?thesis
    by (simp add: handler_args_def dict_get_def)
next
  case 2
  with assms(2) show ?thesis
    by (simp add: handler_args_def dict_get_def)
next
  case 3
  with assms(2) show ?thesis
    by (simp add: handler_args_def dict_get_def)
next
  case 4
  with assms(2) show ?thesis
    by (simp add: handler_args_def dict_get_def)
next
  case 5
  with assms(2) show ?thesis
    by (simp add: handler_args_def dict_get_def)
next
  case 6
  with assms(2) show ?thesis
    by (simp add: handler_args_def dict_get_def)
next
  case 7
  with assms(2) show ?thesis
    by (simp add: handler_args_def dict_get_def)
qed

text \<open>
  C5. For every default a schema declares for a parameter of a tool (they are listed in
  the second part), a call that omits the parameter invokes the tool body with the
  default in that position, and the call is indistinguishable from the call that
  supplies the default. In particular \<^verbatim>\<open>get_typo3_changelog\<close> called with the version
  12.4 alone runs the tool body on 12.4, \<^verbatim>\<open>All\<close> and 10, raises nothing, logs nothing, and
  its text contains \<^verbatim>\<open>TYPO3 12.4 Changelog\<close>, \<^verbatim>\<open>**Type:** All\<close> and \<^verbatim>\<open>**Limit:** 10\<close>.
\<close>

theorem defaults_filled:
  "((tool, p, d) \<in> set declared_defaults \<and> arguments p = None \<longrightarrow>
       d \<in> set (handler_args tool arguments)
     \<and> handler_args tool arguments = handler_args tool (arguments(p \<mapsto> d))
     \<and> call_tool tool arguments log = call_tool tool (arguments(p \<mapsto> d)) log)
   \<and> declared_defaults =
       [(''search_typo3_docs'', ''version'', PStr ''main''),
        (''search_typo3_docs'', ''section'', PStr ''all''),
        (''get_typo3_changelog'', ''type'', PStr ''All''),
        (''get_typo3_changelog'', ''limit'', PInt 10),
        (''search_typo3_extensions'', ''typo3_version'', PStr ''12.4''),
        (''search_typo3_extensions'', ''limit'', PInt 10),
        (''get_typo3_coding_guidelines'', ''topic'', PStr ''php'')]
   \<and> call_tool_try ''get_typo3_changelog'' [''version'' \<mapsto> PStr ''12.4''] =
       get_typo3_changelog (PStr ''12.4'') (PStr ''All'') (PInt 10)
   \<and> (\<exists>t. call_tool ''get_typo3_changelog'' [''version'' \<mapsto> PStr ''12.4''] log =
             ([\<lparr>tc_type = ''text'', tc_text = t\<rparr>], log)
          \<and> sublist ''TYPO3 12.4 Changelog'' t
          \<and> sublist ''**Type:** All'' t
          \<and> sublist ''**Limit:** 10'' t)"
proof -
  have generic: "(tool, p, d) \<in> set declared_defaults \<and> arguments p = None \<longrightarrow>
       d \<in> set (handler_args tool arguments)
     \<and> handler_args tool arguments = handler_args tool (arguments(p \<mapsto> d))
     \<and> call_tool tool arguments log = call_tool tool (arguments(p \<mapsto> d)) log"
  proof (intro impI, elim conjE)
    assume h: "(tool, p, d) \<in> set declared_defaults" "arguments p = None"
    note a = handler_args_default [of tool p d arguments, OF h]
    from a [THEN conjunct2]
    have "call_tool tool (arguments(p \<mapsto> d)) log = call_tool tool arguments log"
      by (rule call_tool_handler_args_cong)
    with a show "d \<in> set (handler_args tool arguments)
       \<and> handler_args tool arguments = handler_args tool (arguments(p \<mapsto> d))
       \<and> call_tool tool arguments log = call_tool tool (arguments(p \<mapsto> d)) log"
      by simp
  qed
  have tr: "call_tool_try ''get_typo3_changelog'' [''version'' \<mapsto> PStr ''12.4''] =
      get_typo3_changelog (PStr ''12.4'') (PStr ''All'') (PInt 10)"
    by (simp add: call_tool_try_def dict_get_def)
  have "\<exists>s. get_typo3_changelog (PStr ''12.4'') (PStr ''All'') (PInt 10) =
      Inr [\<lparr>tc_type = ''text'',
            tc_text = ''# TYPO3 12.4 Changelog\<newline>\<newline>**Type:** All\<newline>**Limit:** 10\<newline>'' @ s\<rparr>]"
    using format_py_int_10 by (simp add: get_typo3_changelog_def)
  then obtain s where s: "get_typo3_changelog (PStr ''12.4'') (PStr ''All'') (PInt 10) =
      Inr [\<lparr>tc_type = ''text'',
            tc_text = ''# TYPO3 12.4 Changelog\<newline>\<newline>**Type:** All\<newline>**Limit:** 10\<newline>'' @ s\<rparr>]" ..
  let ?t = "''# TYPO3 12.4 Changelog\<newline>\<newline>**Type:** All\<newline>**Limit:** 10\<newline>'' @ s"
  have c: "call_tool ''get_typo3_changelog'' [''version'' \<mapsto> PStr ''12.4''] log =
      ([\<lparr>tc_type = ''text'', tc_text = ?t\<rparr>], log)"
    by (rule call_tool_of_Inr) (simp only: tr s)
  have "sublist ''TYPO3 12.4 Changelog''
      (''# '' @ ''TYPO3 12.4 Changelog'' @ (''\<newline>\<newline>**Type:** All\<newline>**Limit:** 10\<newline>'' @ s))"
    by (rule sublist_appendI)
  then have t1: "sublist ''TYPO3 12.4 Changelog'' ?t"
    by simp
  have "sublist ''**Type:** All''
      (''# TYPO3 12.4 Changelog\<newline>\<newline>'' @ ''**Type:** All'' @ (''\<newline>**Limit:** 10\<newline>'' @ s))"
    by (rule sublist_appendI)
  then have t2: "sublist ''**Type:** All'' ?t"
    by simp
  have "sublist ''**Limit:** 10''
      (''# TYPO3 12.4 Changelog\<newline>\<newline>**Type:** All\<newline>'' @ ''**Limit:** 10'' @ (''\<newline>'' @ s))"
    by (rule sublist_appendI)
  then have t3: "sublist ''**Limit:** 10'' ?t"
    by simp
  from c t1 t2 t3 have scenario:
    "\<exists>t. call_tool ''get_typo3_changelog'' [''version'' \<mapsto> PStr ''12.4''] log =
             ([\<lparr>tc_type = ''text'', tc_text = t\<rparr>], log)
          \<and> sublist ''TYPO3 12.4 Changelog'' t
          \<and> sublist ''**Type:** All'' t
          \<and> sublist ''**Limit:** 10'' t"
    by (intro exI [of _ ?t] conjI)
  from generic declared_defaults_eq tr scenario show ?thesis
    by (intro conjI)
qed

theorem defaults_filled_witness:
  "(''get_typo3_changelog'', ''limit'', PInt 10) \<in> set declared_defaults
   \<and> [''version'' \<mapsto> PStr ''12.4''] ''limit'' = None
   \<and> PInt 10 \<in> set (handler_args ''get_typo3_changelog'' [''version'' \<mapsto> PStr ''12.4''])
   \<and> call_tool ''get_typo3_changelog'' [''version'' \<mapsto> PStr ''12.4''] [] =
       call_tool ''get_typo3_changelog'' [''version'' \<mapsto> PStr ''12.4'', ''limit'' \<mapsto> PInt 10] []"
proof -
  have h1: "(''get_typo3_changelog'', ''limit'', PInt 10) \<in> set declared_defaults"
    unfolding declared_defaults_eq by simp
  have h2: "[''version'' \<mapsto> PStr ''12.4''] ''limit'' = None"
    by simp
  note th = defaults_filled [of "''get_typo3_changelog''" "''limit''" "PInt 10"
      "[''version'' \<mapsto> PStr ''12.4'']" "[]", THEN conjunct1, rule_format, OF conjI, OF h1 h2]
  from th [THEN conjunct1] th [THEN conjunct2, THEN conjunct2] h1 h2 show ?thesis
    by (intro conjI)
qed

subsection \<open>The catalogue\<close>

text \<open>
  C6. \<^verbatim>\<open>list_tools\<close> takes no argument and reads no state, so every call returns the
  same list. It has exactly five entries, in this order: \<^verbatim>\<open>search_typo3_docs\<close>,
  \<^verbatim>\<open>get_typo3_changelog\<close>, \<^verbatim>\<open>search_typo3_extensions\<close>, \<^verbatim>\<open>get_typo3_api_reference\<close>,
  \<^verbatim>\<open>get_typo3_coding_guidelines\<close>. Their required parameters are \<^verbatim>\<open>query\<close>,
  \<^verbatim>\<open>version\<close>, \<^verbatim>\<open>query\<close>, \<^verbatim>\<open>class_name\<close> and none; every parameter is declared a string
  except the two \<^verbatim>\<open>limit\<close>s, which are integers between 1 and 50 with default 10; the
  optional parameters carry the allowed values and defaults listed below.
\<close>

theorem list_tools_catalogue:
  "length list_tools = 5
   \<and> map tool_name list_tools =
       [''search_typo3_docs'', ''get_typo3_changelog'', ''search_typo3_extensions'',
        ''get_typo3_api_reference'', ''get_typo3_coding_guidelines'']
   \<and> map (\<lambda>t. required (inputSchema t)) list_tools =
       [[''query''], [''version''], [''query''], [''class_name''], []]
   \<and> map (\<lambda>t. map (\<lambda>(k, p). (k, prop_type p)) (properties (inputSchema t))) list_tools =
       [[(''query'', ''string''), (''version'', ''string''), (''section'', ''string'')],
        [(''version'', ''string''), (''type'', ''string''), (''limit'', ''integer'')],
        [(''query'', ''string''), (''typo3_version'', ''string''), (''limit'', ''integer'')],
        [(''class_name'', ''string''), (''method_name'', ''string'')],
        [(''topic'', ''string'')]]
   \<and> map optional_params list_tools =
       [[(''version'', ''string'', None, Some (PStr ''main''), None, None),
         (''section'', ''string'',
          Some [''reference-coreapi'', ''guides'', ''extensions'', ''changelog'', ''all''],
          Some (PStr ''all''), None, None)],
        [(''type'', ''string'',
          Some [''Breaking'', ''Deprecation'', ''Feature'', ''Important'', ''All''],
          Some (PStr ''All''), None, None),
         (''limit'', ''integer'', None, Some (PInt 10), Some 1, Some 50)],
        [(''typo3_version'', ''string'', None, Some (PStr ''12.4''), None, None),
         (''limit'', ''integer'', None, Some (PInt 10), Some 1, Some 50)],
        [(''method_name'', ''string'', None, None, None, None)],
        [(''topic'', ''string'',
          Some [''php'', ''javascript'', ''typescript'', ''fluid'', ''typoscript'',
                ''database'', ''security'', ''all''],
          Some (PStr ''php''), None, None)]]"
  by (simp add: list_tools_def optional_params_def)

subsection \<open>Names and routing\<close>

text \<open>
  C9. The five names of the catalogue are pairwise distinct, and the catalogue is a
  constant. Each of the five names selects one fixed tool body in \<^verbatim>\<open>call_tool\<close>, applied
  to values read from the argument mapping only; and the content \<^verbatim>\<open>call_tool\<close> returns
  does not depend on the log, the one piece of state a call can change. So a call with a
  given name and argument mapping is routed to the same tool body and returns the same
  content every time.
\<close>

theorem registry_names_and_routing:
  "distinct (map tool_name list_tools)
   \<and> set (map tool_name list_tools) =
       {''search_typo3_docs'', ''get_typo3_changelog'', ''search_typo3_extensions'',
        ''get_typo3_api_reference'', ''get_typo3_coding_guidelines''}
   \<and> call_tool_try ''search_typo3_docs'' arguments =
       search_typo3_docs (dict_get arguments ''query'' PNone)
         (dict_get arguments ''version'' (PStr ''main''))
         (dict_get arguments ''section'' (PStr ''all''))
   \<and> call_tool_try ''get_typo3_changelog'' arguments =
       get_typo3_changelog (dict_get arguments ''version'' PNone)
         (dict_get arguments ''type'' (PStr ''All''))
         (dict_get arguments ''limit'' (PInt 10))
   \<and> call_tool_try ''search_typo3_extensions'' arguments =
       search_typo3_extensions (dict_get arguments ''query'' PNone)
         (dict_get arguments ''typo3_version'' (PStr ''12.4''))
         (dict_get arguments ''limit'' (PInt 10))
   \<and> call_tool_try ''get_typo3_api_reference'' arguments =
       get_typo3_api_reference (dict_get arguments ''class_name'' PNone)
         (dict_get arguments ''method_name'' PNone)
   \<and> call_tool_try ''get_typo3_coding_guidelines'' arguments =
       get_typo3_coding_guidelines (dict_get arguments ''topic'' (PStr ''php''))
   \<and> fst (call_tool name arguments log) = fst (call_tool name arguments log')"
proof -
  have "distinct (map tool_name list_tools)"
    unfolding tool_names_eq by simp
  moreover have "set (map tool_name list_tools) =
      {''search_typo3_docs'', ''get_typo3_changelog'', ''search_typo3_extensions'',
       ''get_typo3_api_reference'', ''get_typo3_coding_guidelines''}"
    unfolding tool_names_eq by simp
  moreover have "call_tool_try ''search_typo3_docs'' arguments =
       search_typo3_docs (dict_get arguments ''query'' PNone)
         (dict_get arguments ''version'' (PStr ''main''))
         (dict_get arguments ''section'' (PStr ''all''))"
    by (simp add: call_tool_try_def)
  moreover have "call_tool_try ''get_typo3_changelog'' arguments =
       get_typo3_changelog (dict_get arguments ''version'' PNone)
         (dict_get arguments ''type'' (PStr ''All''))
         (dict_get arguments ''limit'' (PInt 10))"
    by (simp add: call_tool_try_def)
  moreover have "call_tool_try ''search_typo3_extensions'' arguments =
       search_typo3_extensions (dict_get arguments ''query'' PNone)
         (dict_get arguments ''typo3_version'' (PStr ''12.4''))
         (dict_get arguments ''limit'' (PInt 10))"
    by (simp add: call_tool_try_def)
  moreover have "call_tool_try ''get_typo3_api_reference'' arguments =
       get_typo3_api_reference (dict_get arguments ''class_name'' PNone)
         (dict_get arguments ''method_name'' PNone)"
    by (simp add: call_tool_try_def)
  moreover have "call_tool_try ''get_typo3_coding_guidelines'' arguments =
       get_typo3_coding_guidelines (dict_get arguments ''topic'' (PStr ''php''))"
    by (simp add: call_tool_try_def)
  moreover have "fst (call_tool name arguments log) = fst (call_tool name arguments log')"
    by (rule call_tool_fst_log)
  ultimately show ?thesis
    by (intro conjI)
qed

subsection \<open>Argument keys no schema declares\<close>

lemma dict_get_undeclared:
  assumes "dom extra \<inter> set ks = {}" and "k \<in> set ks"
  shows "dict_get (arguments ++ extra) k dflt = dict_get arguments k dflt"
proof -
  from assms have "extra k = None"
    by (auto simp: dom_def)
  then show ?thesis
    by (simp add: dict_get_def map_add_def)
qed

lemma tool_name_cases:
  assumes "tool \<in> set (map tool_name list_tools)"
  obtains "tool = ''search_typo3_docs''" | "tool = ''get_typo3_changelog''"
    | "tool = ''search_typo3_extensions''" | "tool = ''get_typo3_api_reference''"
    | "tool = ''get_typo3_coding_guidelines''"
proof -
  from assms have "tool = ''search_typo3_docs'' \<or> tool = ''get_typo3_changelog'' \<or>
      tool = ''search_typo3_extensions'' \<or> tool = ''get_typo3_api_reference'' \<or>
      tool = ''get_typo3_coding_guidelines''"
    unfolding tool_names_eq by (simp only: list.set insert_iff empty_iff simp_thms)
  then show thesis
    using that by (elim disjE)
qed

lemma handler_args_undeclared:
  assumes "tool \<in> set (map tool_name list_tools)"
    and "dom extra \<inter> set (declared_params tool) = {}"
  shows "handler_args tool (arguments ++ extra) = handler_args tool arguments"
  using assms(1)
proof (cases rule: tool_name_cases)
  case 1
  with assms(2) have "dom extra \<inter> set [''query'', ''version'', ''section''] = {}"
    by (simp add: declared_params_eq)
  note g = dict_get_undeclared [OF this]
  show ?thesis
    by (simp add: 1 handler_args_def g)
next
  case 2
  with assms(2) have "dom extra \<inter> set [''version'', ''type'', ''limit''] = {}"
    by (simp add: declared_params_eq)
  note g = dict_get_undeclared [OF this]
  show ?thesis
    by (simp add: 2 handler_args_def g)
next
  case 3
  with assms(2) have "dom extra \<inter> set [''query'', ''typo3_version'', ''limit''] = {}"
    by (simp add: declared_params_eq)
  note g = dict_get_undeclared [OF this]
  show ?thesis
    by (simp add: 3 handler_args_def g)
next
  case 4
  with assms(2) have "dom extra \<inter> set [''class_name'', ''method_name''] = {}"
    by (simp add: declared_params_eq)
  note g = dict_get_undeclared [OF this]
  show ?thesis
    by (simp add: 4 handler_args_def g)
next
  case 5
  with assms(2) have "dom extra \<inter> set [''topic''] = {}"
    by (simp add: declared_params_eq)
  note g = dict_get_undeclared [OF this]
  show ?thesis
    by (simp add: 5 handler_args_def g)
qed

text \<open>
  C8 as stated fails in one part: a key no schema declares is not available to the tool
  body. \<^verbatim>\<open>call_tool\<close> hands each tool body the values of its declared parameters only,
  as positional arguments, and never the argument mapping. In the call of
  \<^verbatim>\<open>search_typo3_docs\<close> with the query \<^verbatim>\<open>news\<close> and an undeclared key \<^verbatim>\<open>debug\<close> set to
  \<^verbatim>\<open>on\<close>, the tool body is applied to \<^verbatim>\<open>news\<close>, \<^verbatim>\<open>main\<close> and \<^verbatim>\<open>all\<close>, and the value
  of \<^verbatim>\<open>debug\<close> is not among its arguments.
\<close>

theorem undeclared_key_counterexample:
  "''debug'' \<notin> set (declared_params ''search_typo3_docs'')
   \<and> handler_args ''search_typo3_docs'' [''query'' \<mapsto> PStr ''news'', ''debug'' \<mapsto> PStr ''on''] =
       [PStr ''news'', PStr ''main'', PStr ''all'']
   \<and> PStr ''on'' \<notin> set (handler_args ''search_typo3_docs''
         [''query'' \<mapsto> PStr ''news'', ''debug'' \<mapsto> PStr ''on''])
   \<and> call_tool_try ''search_typo3_docs'' [''query'' \<mapsto> PStr ''news'', ''debug'' \<mapsto> PStr ''on''] =
       search_typo3_docs (PStr ''news'') (PStr ''main'') (PStr ''all'')"
proof -
  have "''debug'' \<notin> set (declared_params ''search_typo3_docs'')"
    by (simp add: declared_params_eq)
  moreover have h: "handler_args ''search_typo3_docs''
      [''query'' \<mapsto> PStr ''news'', ''debug'' \<mapsto> PStr ''on''] =
      [PStr ''news'', PStr ''main'', PStr ''all'']"
    by (simp add: handler_args_def dict_get_def)
  moreover have "PStr ''on'' \<notin> set (handler_args ''search_typo3_docs''
      [''query'' \<mapsto> PStr ''news'', ''debug'' \<mapsto> PStr ''on''])"
    unfolding h by simp
  moreover have "call_tool_try ''search_typo3_docs''
      [''query'' \<mapsto> PStr ''news'', ''debug'' \<mapsto> PStr ''on''] =
      search_typo3_docs (PStr ''news'') (PStr ''main'') (PStr ''all'')"
    by (simp add: call_tool_try_def dict_get_def)
  ultimately show ?thesis
    by (intro conjI)
qed

text \<open>
  C8, amended. For every registered tool and every argument mapping, adding keys that
  the tool's schema does not declare never causes the call to be rejected: the added keys
  are never read, the tool body is invoked with exactly the same arguments, and the
  result of \<^verbatim>\<open>call_tool\<close> (content and log) is the same as for the call without them.
\<close>

theorem undeclared_keys_ignored:
  assumes "tool \<in> set (map tool_name list_tools)"
    and "dom extra \<inter> set (declared_params tool) = {}"
  shows "handler_args tool (arguments ++ extra) = handler_args tool arguments
       \<and> call_tool_try tool (arguments ++ extra) = call_tool_try tool arguments
       \<and> call_tool tool (arguments ++ extra) log = call_tool tool arguments log"
proof -
  have a: "handler_args tool (arguments ++ extra) = handler_args tool arguments"
    using assms by (rule handler_args_undeclared)
  then have "call_tool_try tool (arguments ++ extra) = call_tool_try tool arguments"
    by (simp only: call_tool_try_handler_args)
  moreover from a have "call_tool tool (arguments ++ extra) log = call_tool tool arguments log"
    by (rule call_tool_handler_args_cong)
  ultimately show ?thesis
    using a by (intro conjI)
qed

theorem undeclared_keys_ignored_witness:
  "''search_typo3_docs'' \<in> set (map tool_name list_tools)
   \<and> dom [''debug'' \<mapsto> PStr ''on''] \<inter> set (declared_params ''search_typo3_docs'') = {}
   \<and> call_tool ''search_typo3_docs'' ([''query'' \<mapsto> PStr ''news''] ++ [''debug'' \<mapsto> PStr ''on'']) [] =
       call_tool ''search_typo3_docs'' [''query'' \<mapsto> PStr ''news''] []"
proof -
  have h1: "''search_typo3_docs'' \<in> set (map tool_name list_tools)"
    unfolding tool_names_eq by simp
  have h2: "dom [''debug'' \<mapsto> PStr ''on''] \<inter> set (declared_params ''search_typo3_docs'') = {}"
    by (simp add: declared_params_eq)
  note th = undeclared_keys_ignored [of "''search_typo3_docs''" "[''debug'' \<mapsto> PStr ''on'']"
      "[''query'' \<mapsto> PStr ''news'']" "[]", OF h1 h2]
  from h1 h2 th [THEN conjunct2, THEN conjunct2] show ?thesis
    by (intro conjI)
qed

end
